theory Spec2Isabelle
  imports Main "HOL-Library.Word" "HOL-Library.Sublist"
begin

section \<open>Result codes, platforms and strings\<close>

text \<open>
  \<open>HRESULT\<close> is a signed 32-bit value; \<open>FAILED(hr)\<close> is \<open>hr < 0\<close> and
  \<open>SUCCEEDED(hr)\<close> is \<open>hr >= 0\<close>. The constants are the Windows ones.
\<close>

type_synonym HRESULT = "32 word"
type_synonym ULONG32 = "32 word"
type_synonym ULONG64 = "64 word"

definition S_OK :: HRESULT where
  "S_OK = 0"

definition E_FAIL :: HRESULT where
  "E_FAIL = 0x80004005"

definition E_UNEXPECTED :: HRESULT where
  "E_UNEXPECTED = 0x8000FFFF"

definition E_ACCESSDENIED :: HRESULT where
  "E_ACCESSDENIED = 0x80070005"

definition FAILED :: "HRESULT \<Rightarrow> bool" where
  "FAILED hr = (sint hr < 0)"

definition SUCCEEDED :: "HRESULT \<Rightarrow> bool" where
  "SUCCEEDED hr = (0 \<le> sint hr)"

text \<open>
  The build is conditional on \<open>FEATURE_PAL\<close> and, inside it, on the operating system.
  The platform is a parameter of the model; each \<open>#ifdef\<close> of the source is a test on it.
\<close>

datatype platform = Windows | Linux | Apple | FreeBSD_NetBSD

definition FEATURE_PAL :: "platform \<Rightarrow> bool" where
  "FEATURE_PAL p = (p \<noteq> Windows)"

definition DIRECTORY_SEPARATOR_STR_A :: "platform \<Rightarrow> string" where
  "DIRECTORY_SEPARATOR_STR_A p = (if FEATURE_PAL p then ''/'' else [CHR 0x5C])"

definition TPALIST_SEPARATOR_STR_A :: "platform \<Rightarrow> string" where
  "TPALIST_SEPARATOR_STR_A p = (if FEATURE_PAL p then '':'' else '';'')"

section \<open>Directory enumeration\<close>

text \<open>
  \<open>WIN32_FIND_DATAA\<close>, reduced to the two fields the code reads: the file name and the
  \<open>FILE_ATTRIBUTE_DIRECTORY\<close> bit of \<open>dwFileAttributes\<close>.
\<close>

record dirent =
  cFileName :: string
  isDirectory :: bool

text \<open>
  The file system, as far as the code sees it: for a directory path that ends with the
  separator, the entries in the order the enumeration yields them.
\<close>

type_synonym filesystem = "string \<Rightarrow> dirent list"

text \<open>
  \<open>FindFirstFileA\<close>/\<open>FindNextFileA\<close> over a pattern. Every pattern the code builds is a
  directory path, a \<open>*\<close>, and a literal tail (\<open>*\<close>, \<open>*.dll\<close>, \<open>*.ni.dll\<close>): the result is the
  entries of that directory whose names end with the tail. The empty list stands for
  \<open>INVALID_HANDLE_VALUE\<close> (nothing matched).
\<close>

definition FindFirstFileA :: "filesystem \<Rightarrow> string \<Rightarrow> dirent list" where
  "FindFirstFileA fs pattern =
     (let dirPart = takeWhile (\<lambda>c. c \<noteq> CHR ''*'') pattern;
          tail = drop (length dirPart + 1) pattern
      in filter (\<lambda>d. suffix tail (cFileName d)) (fs dirPart))"

section \<open>Scanning a version out of a directory name\<close>

text \<open>
  \<open>sscanf_s(name, "%d.%d.%d", &major, &minor, &revision)\<close> of the C library: \<open>%d\<close> skips
  white space, takes an optional sign and then at least one decimal digit; the dots of the
  format must match literally; the value returned is the number of conversions stored
  (\<open>EOF = -1\<close> when the input ends before the first one). Values are not reduced to 32
  bits: the C library leaves a digit string beyond \<open>int\<close> undefined.
\<close>

definition isdigit :: "char \<Rightarrow> bool" where
  "isdigit c = (let n = (of_char c :: nat) in 48 \<le> n \<and> n \<le> 57)"

definition isspace :: "char \<Rightarrow> bool" where
  "isspace c = (let n = (of_char c :: nat) in n = 32 \<or> (9 \<le> n \<and> n \<le> 13))"

fun scanDigits :: "string \<Rightarrow> nat \<Rightarrow> nat \<times> string" where
  "scanDigits [] acc = (acc, [])"
| "scanDigits (c # cs) acc =
     (if isdigit c then scanDigits cs (acc * 10 + (of_char c - 48)) else (acc, c # cs))"

definition scan_d :: "string \<Rightarrow> (int \<times> string) option" where
  "scan_d s =
     (case dropWhile isspace s of
        [] \<Rightarrow> None
      | c # cs \<Rightarrow>
          (let neg = (c = CHR ''-'');
               body = (if c = CHR ''-'' \<or> c = CHR ''+'' then cs else c # cs)
           in case body of
                [] \<Rightarrow> None
              | d # ds \<Rightarrow>
                  if isdigit d
                  then (case scanDigits (d # ds) 0 of
                          (n, rest) \<Rightarrow> Some (if neg then - int n else int n, rest))
                  else None))"

text \<open>The result: the count \<open>sscanf_s\<close> returns, then the three variables (initially 0).\<close>

definition sscanf_version :: "string \<Rightarrow> int \<times> int \<times> int \<times> int" where
  "sscanf_version s =
     (case scan_d s of
        None \<Rightarrow> (if dropWhile isspace s = [] then - 1 else 0, 0, 0, 0)
      | Some (major, r1) \<Rightarrow>
          (case r1 of
             [] \<Rightarrow> (1, major, 0, 0)
           | c1 # r1' \<Rightarrow>
               if c1 \<noteq> CHR ''.'' then (1, major, 0, 0)
               else (case scan_d r1' of
                       None \<Rightarrow> (1, major, 0, 0)
                     | Some (minor, r2) \<Rightarrow>
                         (case r2 of
                            [] \<Rightarrow> (2, major, minor, 0)
                          | c2 # r2' \<Rightarrow>
                              if c2 \<noteq> CHR ''.'' then (2, major, minor, 0)
                              else (case scan_d r2' of
                                      None \<Rightarrow> (2, major, minor, 0)
                                    | Some (revision, r3) \<Rightarrow> (3, major, minor, revision))))))"

section \<open>RuntimeLocator: \<open>FindDotNetVersion\<close> and \<open>GetHostRuntime\<close>\<close>

text \<open>
  The body of the \<open>do ... while\<close> loop of \<open>FindDotNetVersion\<close>, run over the entries in
  order. The loop state is \<open>(highestRevision, versionFound)\<close>.
\<close>

fun FindDotNetVersion_loop ::
  "int \<Rightarrow> int \<Rightarrow> dirent list \<Rightarrow> int \<times> string \<Rightarrow> int \<times> string" where
  "FindDotNetVersion_loop majorFilter minorFilter [] acc = acc"
| "FindDotNetVersion_loop majorFilter minorFilter (d # ds) (highestRevision, versionFound) =
     FindDotNetVersion_loop majorFilter minorFilter ds
       (if isDirectory d
        then (case sscanf_version (cFileName d) of
                (n, major, minor, revision) \<Rightarrow>
                  if n = 3 \<and> major = majorFilter \<and> minor = minorFilter
                     \<and> revision \<ge> highestRevision
                  then (revision, cFileName d)
                  else (highestRevision, versionFound))
        else (highestRevision, versionFound))"

text \<open>
  \<open>FindDotNetVersion\<close> returns its \<open>bool\<close> and the (possibly extended) in-out argument
  \<open>hostRuntimeDirectory\<close>.
\<close>

definition FindDotNetVersion :: "filesystem \<Rightarrow> int \<Rightarrow> int \<Rightarrow> string \<Rightarrow> bool \<times> string" where
  "FindDotNetVersion fs majorFilter minorFilter hostRuntimeDirectory =
     (let directory = hostRuntimeDirectory @ ''*'';
          versionFound =
            snd (FindDotNetVersion_loop majorFilter minorFilter
                   (FindFirstFileA fs directory) (0, []))
      in if length versionFound > 0
         then (True, hostRuntimeDirectory @ versionFound)
         else (False, hostRuntimeDirectory))"





section \<open>Process-wide state and the outside world\<close>

text \<open>
  The slots of \<open>SOSNetCoreCallbacks\<close>; a function pointer is a number, \<open>0\<close> the null
  pointer.
\<close>

datatype slot =
    InitializeSymbolStoreDelegate
  | DisplaySymbolStoreDelegate
  | DisableSymbolStoreDelegate
  | LoadNativeSymbolsDelegate
  | LoadSymbolsForModuleDelegate
  | DisposeDelegate
  | ResolveSequencePointDelegate
  | GetLocalVariableNameDelegate
  | GetLineByILOffsetDelegate
  | GetMetadataLocatorDelegate

type_synonym fnptr = nat

text \<open>
  The calls that act on the world outside the extension are recorded, in order, in the
  state's \<open>trace\<close>: loading the runtime library, looking an entry point up, starting the
  runtime, creating a delegate, invoking a bound operation, reading the symbol path, and
  the file removals. Of the messages printed with \<open>ExtErr\<close> only the two of symbol-store
  initialization are recorded: there the message is all that a failed operation leaves.
\<close>

datatype event =
    EvLoadLibrary string
  | EvGetProcAddress string
  | EvInitializeCoreCLR string "(string \<times> string) list"
  | EvCreateDelegate string string string
  | EvInvoke slot
  | EvGetSymbolPath
  | EvExtErr string
  | EvDeleteFileA string
  | EvRemoveDirectoryA string

text \<open>The file-level globals of \<open>hostcoreclr.cpp\<close> that the modelled functions touch.\<close>

record sos_state =
  g_hostingInitialized :: bool
  g_symbolStoreInitialized :: bool
  g_hostRuntimeDirectory :: "string option"
  g_tmpPath :: "string option"
  g_SOSNetCoreCallbacks :: "slot \<Rightarrow> fnptr"
  trace :: "event list"

definition emit :: "event \<Rightarrow> sos_state \<Rightarrow> sos_state" where
  "emit e st = st\<lparr>trace := trace st @ [e]\<rparr>"

text \<open>
  What the operating system, the debugger and the hosted runtime answer during one call.
  The four names are macros of headers outside the two source files.
\<close>

record env =
  platform :: platform
  files :: filesystem
  access_F_OK :: "string \<Rightarrow> bool"
  PROGRAMFILES :: "string option"
  ext_GetCoreClrDirectory :: "string option"
  realpath :: "string \<Rightarrow> string option"
  runtimeModuleName :: "HRESULT \<times> string"
  GetFileAttributesA_error :: "string \<Rightarrow> HRESULT option"
  sosModulePath :: "string option"
  LoadLibraryA :: "string \<Rightarrow> bool"
  GetProcAddress :: "string \<Rightarrow> bool"
  entrypointExecutable :: "string option"
  initializeCoreCLR :: "string \<Rightarrow> (string \<times> string) list \<Rightarrow> HRESULT"
  createDelegate :: "string \<Rightarrow> string \<Rightarrow> string \<Rightarrow> HRESULT \<times> fnptr option"
  SOSManagedDllName :: string
  SymbolReaderClassName :: string
  MetadataHelperClassName :: string
  MAIN_CLR_DLL_NAME_A :: string

definition rfind :: "string \<Rightarrow> char \<Rightarrow> nat option" where
  "rfind s c =
     (if c \<in> set s then Some (length s - 1 - length (takeWhile (\<lambda>x. x \<noteq> c) (rev s)))
      else None)"

text \<open>
  The static \<open>GetCoreClrDirectory\<close>: the directory of the runtime under inspection. With
  \<open>FEATURE_PAL\<close> it is the debugger service's answer made absolute; otherwise the runtime
  module's file name (\<open>runtimeModuleName\<close>: the status and name of the two module queries),
  checked to exist and cut at its last separator.
\<close>

definition GetCoreClrDirectory :: "env \<Rightarrow> HRESULT \<times> string" where
  "GetCoreClrDirectory env =
     (if FEATURE_PAL (platform env)
      then (case ext_GetCoreClrDirectory env of
              None \<Rightarrow> (E_FAIL, [])
            | Some directory \<Rightarrow>
                (case realpath env directory of
                   None \<Rightarrow> (E_FAIL, [])
                 | Some absolutePath \<Rightarrow> (S_OK, absolutePath)))
      else (case runtimeModuleName env of
              (Status, szModuleName) \<Rightarrow>
                if FAILED Status then (Status, [])
                else (case GetFileAttributesA_error env szModuleName of
                        Some err \<Rightarrow> (err, [])
                      | None \<Rightarrow>
                          (case rfind szModuleName (CHR 0x5C) of
                             None \<Rightarrow> (E_FAIL, szModuleName)
                           | Some lastSlash \<Rightarrow> (S_OK, take lastSlash szModuleName)))))"

definition g_linuxPaths :: "string list" where
  "g_linuxPaths =
     [''/rh-dotnet21/root/usr/bin/dotnet/shared/Microsoft.NETCore.App'',
      ''/rh-dotnet20/root/usr/bin/dotnet/shared/Microsoft.NETCore.App'',
      ''/usr/share/dotnet/shared/Microsoft.NETCore.App'']"

text \<open>The \<open>for\<close> loop over \<open>g_linuxPaths\<close>: assign, and stop at the first path that exists.\<close>

fun probeLinuxPaths :: "(string \<Rightarrow> bool) \<Rightarrow> string list \<Rightarrow> string \<Rightarrow> string" where
  "probeLinuxPaths acc [] hostRuntimeDirectory = hostRuntimeDirectory"
| "probeLinuxPaths acc (p # ps) hostRuntimeDirectory =
     (if acc p then p else probeLinuxPaths acc ps p)"

text \<open>
  The platform-conditional block of \<open>GetHostRuntime\<close> that chooses the install root;
  \<open>None\<close> is its \<open>return E_FAIL\<close>.
\<close>

definition installRoot :: "env \<Rightarrow> string option" where
  "installRoot env =
     (case platform env of
        Apple \<Rightarrow> Some ''/usr/local/share/dotnet/shared/Microsoft.NETCore.App''
      | FreeBSD_NetBSD \<Rightarrow> None
      | Linux \<Rightarrow> Some (probeLinuxPaths (access_F_OK env) g_linuxPaths [])
      | Windows \<Rightarrow>
          (case PROGRAMFILES env of
             None \<Rightarrow> None
           | Some programFiles \<Rightarrow>
               Some (programFiles
                     @ [CHR 0x5C] @ ''dotnet'' @ [CHR 0x5C] @ ''shared''
                     @ [CHR 0x5C] @ ''Microsoft.NETCore.App'')))"

text \<open>
  \<open>GetHostRuntime\<close> returns the status, \<open>coreClrPath\<close>, \<open>hostRuntimeDirectory\<close> and the
  state (it sets \<open>g_hostRuntimeDirectory\<close>). On failure the two strings are not used by
  any caller and are returned empty.
\<close>

definition GetHostRuntime :: "env \<Rightarrow> sos_state \<Rightarrow> HRESULT \<times> string \<times> string \<times> sos_state" where
  "GetHostRuntime env st =
     (let sep = DIRECTORY_SEPARATOR_STR_A (platform env) in
      case g_hostRuntimeDirectory st of
        Some dir \<Rightarrow> (S_OK, dir @ sep @ MAIN_CLR_DLL_NAME_A env, dir, st)
      | None \<Rightarrow>
          (case installRoot env of
             None \<Rightarrow> (E_FAIL, [], [], st)
           | Some root \<Rightarrow>
               (let d0 = root @ sep;
                    chosen =
                      (case FindDotNetVersion (files env) 2 1 d0 of
                         (found21, d1) \<Rightarrow>
                           if found21 then (S_OK, d1)
                           else (case FindDotNetVersion (files env) 2 2 d1 of
                                   (found22, d2) \<Rightarrow>
                                     if found22 then (S_OK, d2)
                                     else (case FindDotNetVersion (files env) 3 0 d2 of
                                             (found30, d3) \<Rightarrow>
                                               if found30 then (S_OK, d3)
                                               else GetCoreClrDirectory env)))
                in case chosen of
                     (hr, dir) \<Rightarrow>
                       if FAILED hr then (hr, [], [], st)
                       else (S_OK, dir @ sep @ MAIN_CLR_DLL_NAME_A env, dir,
                             st\<lparr>g_hostRuntimeDirectory := Some dir\<rparr>))))"

section \<open>HostingBridge: the trusted-assembly list and \<open>InitializeHosting\<close>\<close>

definition tpaExtensions :: "string list" where
  "tpaExtensions = [''*.ni.dll'', ''*.dll'']"

text \<open>
  \<open>filename.substr(0, filename.length() - extLength)\<close>: the subtraction is on \<open>size_t\<close>, so
  for a name shorter than the extension it wraps to a huge position and \<open>substr\<close> yields the
  whole name.
\<close>

definition filenameWithoutExt :: "nat \<Rightarrow> string \<Rightarrow> string" where
  "filenameWithoutExt extLength filename =
     (if length filename < extLength then filename
      else take (length filename - extLength) filename)"

text \<open>
  The \<open>do ... while\<close> loop over the files of one extension. The loop state is
  \<open>(addedAssemblies, tpaList)\<close>.
\<close>

fun AddFiles_loop ::
  "platform \<Rightarrow> string \<Rightarrow> nat \<Rightarrow> dirent list \<Rightarrow> string set \<times> string \<Rightarrow> string set \<times> string" where
  "AddFiles_loop p directory extLength [] acc = acc"
| "AddFiles_loop p directory extLength (d # ds) (addedAssemblies, tpaList) =
     AddFiles_loop p directory extLength ds
       (if \<not> isDirectory d
        then (let filename = cFileName d;
                  name = filenameWithoutExt extLength filename
              in if name \<notin> addedAssemblies
                 then (insert name addedAssemblies,
                       tpaList @ directory @ DIRECTORY_SEPARATOR_STR_A p @ filename
                         @ TPALIST_SEPARATOR_STR_A p)
                 else (addedAssemblies, tpaList))
        else (addedAssemblies, tpaList))"

text \<open>The \<open>for\<close> loop over \<open>tpaExtensions\<close>; \<open>addedAssemblies\<close> is a local of each call.\<close>

definition AddFilesFromDirectoryToTpaList :: "env \<Rightarrow> string \<Rightarrow> string \<Rightarrow> string" where
  "AddFilesFromDirectoryToTpaList env directory tpaList =
     snd (foldl
            (\<lambda>acc ext.
               AddFiles_loop (platform env) directory (length ext - 1)
                 (FindFirstFileA (files env)
                    (directory @ DIRECTORY_SEPARATOR_STR_A (platform env) @ ext))
                 acc)
            ({SOSManagedDllName env}, tpaList)
            tpaExtensions)"




text \<open>
  The ten \<open>IfFailRet(createDelegate(...))\<close> lines: class name, method name and the slot
  that receives the delegate.
\<close>

definition delegateTable :: "env \<Rightarrow> (string \<times> string \<times> slot) list" where
  "delegateTable env =
     [(SymbolReaderClassName env, ''InitializeSymbolStore'', InitializeSymbolStoreDelegate),
      (SymbolReaderClassName env, ''DisplaySymbolStore'', DisplaySymbolStoreDelegate),
      (SymbolReaderClassName env, ''DisableSymbolStore'', DisableSymbolStoreDelegate),
      (SymbolReaderClassName env, ''LoadNativeSymbols'', LoadNativeSymbolsDelegate),
      (SymbolReaderClassName env, ''LoadSymbolsForModule'', LoadSymbolsForModuleDelegate),
      (SymbolReaderClassName env, ''Dispose'', DisposeDelegate),
      (SymbolReaderClassName env, ''ResolveSequencePoint'', ResolveSequencePointDelegate),
      (SymbolReaderClassName env, ''GetLocalVariableName'', GetLocalVariableNameDelegate),
      (SymbolReaderClassName env, ''GetLineByILOffset'', GetLineByILOffsetDelegate),
      (MetadataHelperClassName env, ''GetMetadataLocator'', GetMetadataLocatorDelegate)]"

text \<open>
  \<open>createDelegate\<close> answers a status and what it stored through the out pointer
  (\<open>None\<close>: the slot was left as it was). The first failure returns.
\<close>

fun bindDelegates ::
  "env \<Rightarrow> (string \<times> string \<times> slot) list \<Rightarrow> HRESULT \<Rightarrow> sos_state \<Rightarrow> HRESULT \<times> sos_state" where
  "bindDelegates env [] Status st = (Status, st)"
| "bindDelegates env ((cls, method, sl) # rest) Status st =
     (case createDelegate env (SOSManagedDllName env) cls method of
        (hr, stored) \<Rightarrow>
          (let st1 = emit (EvCreateDelegate (SOSManagedDllName env) cls method) st;
               st2 = (case stored of
                        None \<Rightarrow> st1
                      | Some f \<Rightarrow>
                          st1\<lparr>g_SOSNetCoreCallbacks := (g_SOSNetCoreCallbacks st1)(sl := f)\<rparr>)
           in if FAILED hr then (hr, st2) else bindDelegates env rest hr st2))"

text \<open>
  The module directory of the extension: \<open>PAL_GetPALDirectoryA\<close> with \<open>FEATURE_PAL\<close>;
  otherwise \<open>GetModuleFileNameA\<close> cut at its last separator.
\<close>

definition sosModuleDirectory :: "env \<Rightarrow> string option" where
  "sosModuleDirectory env =
     (case sosModulePath env of
        None \<Rightarrow> None
      | Some szSOSModulePath \<Rightarrow>
          if FEATURE_PAL (platform env) then Some szSOSModulePath
          else (case rfind szSOSModulePath (CHR 0x5C) of
                  None \<Rightarrow> None
                | Some lastSlash \<Rightarrow> Some (take lastSlash szSOSModulePath)))"

text \<open>
  The trusted-assembly list (the extension's directory scanned first, then the hosting
  runtime's), the probing paths, and with them the \<open>propertyKeys\<close> and
  \<open>propertyValues\<close> arrays handed to \<open>coreclr_initialize\<close>.
\<close>

definition hostProperties :: "env \<Rightarrow> string \<Rightarrow> string \<Rightarrow> (string \<times> string) list" where
  "hostProperties env sosDir hostRuntimeDirectory =
     (let tpaList =
            AddFilesFromDirectoryToTpaList env hostRuntimeDirectory
              (AddFilesFromDirectoryToTpaList env sosDir []);
          appPaths = sosDir @ TPALIST_SEPARATOR_STR_A (platform env) @ hostRuntimeDirectory
      in [(''TRUSTED_PLATFORM_ASSEMBLIES'', tpaList),
          (''APP_PATHS'', appPaths),
          (''APP_NI_PATHS'', hostRuntimeDirectory),
          (''NATIVE_DLL_SEARCH_DIRECTORIES'', appPaths),
          (''AppDomainCompatSwitch'', ''UseLatestBehaviorWhenTFMNotSpecified'')])"

text \<open>
  \<open>InitializeHosting\<close>. \<open>bindDelegates\<close> hands back a failed status exactly when one of
  the ten \<open>IfFailRet\<close> returned, so the test on \<open>Status2\<close> is that return.
\<close>

definition InitializeHosting :: "env \<Rightarrow> sos_state \<Rightarrow> HRESULT \<times> sos_state" where
  "InitializeHosting env st =
     (if g_hostingInitialized st then (S_OK, st)
      else
        case GetHostRuntime env st of
          (Status, coreClrPath, hostRuntimeDirectory, st1) \<Rightarrow>
            if FAILED Status then (Status, st1)
            else
              (case sosModuleDirectory env of
                 None \<Rightarrow> (E_FAIL, st1)
               | Some sosDir \<Rightarrow>
                   (let st2 = emit (EvLoadLibrary coreClrPath) st1 in
                    if \<not> LoadLibraryA env coreClrPath then (E_FAIL, st2)
                    else
                      (let st3 = emit (EvGetProcAddress ''coreclr_create_delegate'')
                                   (emit (EvGetProcAddress ''coreclr_initialize'') st2)
                       in if \<not> GetProcAddress env ''coreclr_initialize''
                             \<or> \<not> GetProcAddress env ''coreclr_create_delegate''
                          then (E_FAIL, st3)
                          else
                            (let properties = hostProperties env sosDir hostRuntimeDirectory
                             in case entrypointExecutable env of
                                  None \<Rightarrow> (E_FAIL, st3)
                                | Some exe \<Rightarrow>
                                    (let Status1 = initializeCoreCLR env exe properties;
                                         st4 = emit (EvInitializeCoreCLR exe properties) st3
                                     in if FAILED Status1 then (Status1, st4)
                                        else
                                          (case bindDelegates env (delegateTable env) Status1 st4 of
                                             (Status2, st5) \<Rightarrow>
                                               if FAILED Status2 then (Status2, st5)
                                               else (Status2,
                                                     st5\<lparr>g_hostingInitialized := True\<rparr>))))))))"

text \<open>
  Every step of the bootstrap answers success: the hosting directory is resolved, the
  module directory of the extension is known, the runtime library loads, both entry
  points are found, the path of the executable is known, the runtime starts, and each
  of the ten delegates is created.
\<close>

definition bootstrapStepsSucceed :: "env \<Rightarrow> sos_state \<Rightarrow> bool" where
  "bootstrapStepsSucceed env st =
     (case GetHostRuntime env st of
        (Status, coreClrPath, hostRuntimeDirectory, st1) \<Rightarrow>
          \<not> FAILED Status
          \<and> (case sosModuleDirectory env of
                None \<Rightarrow> False
              | Some sosDir \<Rightarrow>
                  LoadLibraryA env coreClrPath
                  \<and> GetProcAddress env ''coreclr_initialize''
                  \<and> GetProcAddress env ''coreclr_create_delegate''
                  \<and> (case entrypointExecutable env of
                        None \<Rightarrow> False
                      | Some exe \<Rightarrow>
                          \<not> FAILED (initializeCoreCLR env exe
                                       (hostProperties env sosDir hostRuntimeDirectory)))
                  \<and> list_all
                        (\<lambda>(cls, method, sl).
                           \<not> FAILED (fst (createDelegate env (SOSManagedDllName env) cls method)))
                        (delegateTable env)))"

text \<open>The outside calls a complete bootstrap makes, in order.\<close>

definition bootstrapEvents :: "env \<Rightarrow> sos_state \<Rightarrow> event list" where
  "bootstrapEvents env st =
     (case GetHostRuntime env st of
        (Status, coreClrPath, hostRuntimeDirectory, st1) \<Rightarrow>
          [EvLoadLibrary coreClrPath,
           EvGetProcAddress ''coreclr_initialize'',
           EvGetProcAddress ''coreclr_create_delegate'',
           EvInitializeCoreCLR (the (entrypointExecutable env))
             (hostProperties env (the (sosModuleDirectory env)) hostRuntimeDirectory)]
          @ map (\<lambda>(cls, method, sl). EvCreateDelegate (SOSManagedDllName env) cls method)
              (delegateTable env))"

section \<open>SymbolStoreManager\<close>

text \<open>
  The answers of the bound managed operations and of the debugger's symbol service. The
  \<open>_ASSERTE\<close> lines of the source are debug-build checks and are not modelled.
\<close>

record metadata_request =
  imagePath :: string
  imageTimestamp :: ULONG32
  imageSize :: ULONG32
  mvid :: "8 word list"
  mdRva :: ULONG32
  flags :: ULONG32
  bufferSize :: ULONG32

record services =
  InitializeSymbolStore_managed ::
    "bool \<Rightarrow> bool \<Rightarrow> bool \<Rightarrow> string option \<Rightarrow> string option \<Rightarrow> string option \<Rightarrow> bool"
  GetMetadataLocator_managed :: "metadata_request \<Rightarrow> HRESULT \<times> 8 word list \<times> ULONG32"
  GetSymbolPath :: "HRESULT \<times> string"

text \<open>\<open>InitializeSymbolStore(logging, msdl, symweb, symbolServer, cacheDirectory)\<close>.\<close>

definition InitializeSymbolStore ::
  "env \<Rightarrow> services \<Rightarrow> bool \<Rightarrow> bool \<Rightarrow> bool \<Rightarrow> string option \<Rightarrow> string option
   \<Rightarrow> sos_state \<Rightarrow> HRESULT \<times> sos_state" where
  "InitializeSymbolStore env svc logging msdl symweb symbolServer cacheDirectory st =
     (case InitializeHosting env st of
        (Status, st1) \<Rightarrow>
          if FAILED Status then (Status, st1)
          else
            (let st2 = emit (EvInvoke InitializeSymbolStoreDelegate) st1 in
             if \<not> InitializeSymbolStore_managed svc logging msdl symweb symbolServer
                    cacheDirectory None
             then (E_FAIL, emit (EvExtErr ''Error initializing symbol server support'') st2)
             else (S_OK, st2\<lparr>g_symbolStoreInitialized := True\<rparr>)))"

text \<open>
  \<open>InitializeSymbolStore()\<close>, the variant that reads the debugger's symbol path. Its body
  is compiled only without \<open>FEATURE_PAL\<close>.
\<close>

definition InitializeSymbolStore_sympath :: "env \<Rightarrow> services \<Rightarrow> sos_state \<Rightarrow> sos_state" where
  "InitializeSymbolStore_sympath env svc st =
     (if FEATURE_PAL (platform env) then st
      else if \<not> g_symbolStoreInitialized st
      then (let st1 = st\<lparr>g_symbolStoreInitialized := True\<rparr>;
                st2 = emit EvGetSymbolPath st1
            in case GetSymbolPath svc of
                 (hr, symbolPath) \<Rightarrow>
                   if SUCCEEDED hr
                   then (if length symbolPath > 0
                         then (let st3 = emit (EvInvoke InitializeSymbolStoreDelegate) st2 in
                               if \<not> InitializeSymbolStore_managed svc False False False
                                      None None (Some symbolPath)
                               then emit (EvExtErr ''Windows symbol path parsing FAILED'') st3
                               else st3)
                         else st2)
                   else st2)
      else st)"

text \<open>\<open>SOSShutdown\<close>: the exchange of \<open>g_tmpPath\<close> with null, then the removal.\<close>

fun SOSShutdown_loop :: "string \<Rightarrow> dirent list \<Rightarrow> sos_state \<Rightarrow> sos_state" where
  "SOSShutdown_loop tmpPath [] st = st"
| "SOSShutdown_loop tmpPath (d # ds) st =
     SOSShutdown_loop tmpPath ds
       (if \<not> isDirectory d then emit (EvDeleteFileA (tmpPath @ cFileName d)) st else st)"

definition SOSShutdown :: "env \<Rightarrow> sos_state \<Rightarrow> sos_state" where
  "SOSShutdown env st =
     (let exchanged = g_tmpPath st;
          st1 = st\<lparr>g_tmpPath := None\<rparr>
      in case exchanged of
           None \<Rightarrow> st1
         | Some tmpPath \<Rightarrow>
             emit (EvRemoveDirectoryA tmpPath)
               (SOSShutdown_loop tmpPath (FindFirstFileA (files env) (tmpPath @ ''*'')) st1))"

section \<open>DataTarget\<close>


text \<open>
  Modelled from the spec: \<open>IsMetadataMemory\<close> is a helper of the repository outside the
  two source files. Following the spec and the comment at its call, it is true when the
  read \<open>[address, address + request)\<close> overlaps one of the known metadata ranges
  \<open>[start, stop)\<close> of the loaded modules.
\<close>

definition IsMetadataMemory :: "(nat \<times> nat) list \<Rightarrow> ULONG64 \<Rightarrow> ULONG32 \<Rightarrow> bool" where
  "IsMetadataMemory regions address request =
     list_ex (\<lambda>(start, stop). max start (unat address) < min stop (unat address + unat request))
       regions"

text \<open>
  \<open>DataTarget::ReadVirtual\<close>. \<open>g_ExtData\<close> is the debugger's memory service (\<open>None\<close>: the
  null pointer); a read answers a status and, when it stored them, the bytes and the
  count \<open>done\<close>. \<open>g_sos\<close> tells whether the data-access interface pointer is non-null.
\<close>

type_synonym read_result = "HRESULT \<times> (8 word list \<times> ULONG32) option"

definition DataTarget_ReadVirtual ::
  "platform \<Rightarrow> (ULONG64 \<Rightarrow> ULONG32 \<Rightarrow> read_result) option \<Rightarrow> bool \<Rightarrow> (nat \<times> nat) list
   \<Rightarrow> ULONG64 \<Rightarrow> ULONG32 \<Rightarrow> read_result" where
  "DataTarget_ReadVirtual p g_ExtData g_sos regions address request =
     (case g_ExtData of
        None \<Rightarrow> (E_UNEXPECTED, None)
      | Some ReadVirtual \<Rightarrow>
          if FEATURE_PAL p \<and> g_sos \<and> IsMetadataMemory regions address request
          then (E_ACCESSDENIED, None)
          else ReadVirtual address request)"







section \<open>SymbolReader: the legacy reader\<close>

text \<open>
  The legacy reader's objects, each call as the status and value it answers. A sequence
  point is one index of the parallel arrays \<open>offsets\<close>, \<open>lines\<close> and \<open>documents\<close>
  (with the answer of the document's \<open>GetURL\<close>); \<open>realSeqPointCount\<close> is the length of
  the list, taken to be below \<open>2^31\<close>.
\<close>

record seqpoint =
  offset :: ULONG32
  line :: ULONG32
  documentURL :: "HRESULT \<times> string"

record ISymUnmanagedMethod =
  GetSequencePointCount :: "HRESULT \<times> ULONG32"
  GetSequencePoints :: "ULONG32 \<Rightarrow> HRESULT \<times> seqpoint list"
  GetToken :: "HRESULT \<times> ULONG32"
  GetOffset :: "ULONG32 \<Rightarrow> HRESULT \<times> ULONG32"

record ISymUnmanagedDocument =
  GetURL :: "HRESULT \<times> string"
  FindClosestLine :: "ULONG32 \<Rightarrow> HRESULT \<times> ULONG32"
  GetMethodFromDocumentPosition :: "ULONG32 \<Rightarrow> HRESULT \<times> ISymUnmanagedMethod"

record ISymUnmanagedReader =
  GetMethod :: "ULONG32 \<Rightarrow> HRESULT \<times> ISymUnmanagedMethod"
  GetDocuments :: "HRESULT \<times> ISymUnmanagedDocument list"

text \<open>
  The portable reader's two operations used here, and the allocation of the file-name
  string, as the answers they give.
\<close>

record portable_reader =
  SysAllocStringLen_ok :: bool
  GetLineByILOffsetDelegate_op :: "nat \<Rightarrow> ULONG32 \<Rightarrow> ULONG64 \<Rightarrow> bool \<times> ULONG32 \<times> string"
  WideCharToMultiByte_ok :: "string \<Rightarrow> bool"
  ResolveSequencePointDelegate_op :: "nat \<Rightarrow> string \<Rightarrow> ULONG32 \<Rightarrow> bool \<times> ULONG32 \<times> ULONG32"

record SymbolReader =
  m_symbolReaderHandle :: nat
  m_pSymReader :: "ISymUnmanagedReader option"

definition E_OUTOFMEMORY :: HRESULT where
  "E_OUTOFMEMORY = 0x8007000E"

definition HiddenLine :: ULONG32 where
  "HiddenLine = 0x00feefee"

text \<open>
  The \<open>for\<close> loop of \<open>GetLineByILOffset\<close>: \<open>i\<close> is the index of the head of the list,
  \<open>bestSoFar\<close> is \<open>None\<close> for \<open>-1\<close>. The comparison is on \<open>ULONG64\<close>, the offset widened.
\<close>

fun seqPointScan :: "seqpoint list \<Rightarrow> ULONG64 \<Rightarrow> nat \<Rightarrow> nat option \<Rightarrow> nat option" where
  "seqPointScan [] ilOffset i bestSoFar = bestSoFar"
| "seqPointScan (sp # rest) ilOffset i bestSoFar =
     (if (ucast (offset sp) :: ULONG64) > ilOffset then bestSoFar
      else seqPointScan rest ilOffset (i + 1)
             (if line sp \<noteq> HiddenLine then Some i else bestSoFar))"

definition SymbolReader_GetLineByILOffset ::
  "platform \<Rightarrow> portable_reader \<Rightarrow> SymbolReader \<Rightarrow> ULONG32 \<Rightarrow> ULONG64
   \<Rightarrow> HRESULT \<times> (ULONG32 \<times> string) option" where
  "SymbolReader_GetLineByILOffset p pr this methodToken ilOffset =
     (if m_symbolReaderHandle this \<noteq> 0
      then (if \<not> SysAllocStringLen_ok pr then (E_OUTOFMEMORY, None)
            else (case GetLineByILOffsetDelegate_op pr (m_symbolReaderHandle this)
                         methodToken ilOffset of
                    (ok, linenum, bstrFileName) \<Rightarrow>
                      if \<not> ok \<or> linenum = 0 then (E_FAIL, None)
                      else (S_OK, Some (linenum, bstrFileName))))
      else if FEATURE_PAL p then (E_FAIL, None)
      else
        (case m_pSymReader this of
           None \<Rightarrow> (E_FAIL, None)
         | Some reader \<Rightarrow>
             (case GetMethod reader methodToken of
                (hr0, pSymMethod) \<Rightarrow>
                  if FAILED hr0 then (hr0, None)
                  else
                    (case GetSequencePointCount pSymMethod of
                       (hr1, seqPointCount) \<Rightarrow>
                         if FAILED hr1 then (hr1, None)
                         else if seqPointCount = 0 then (E_FAIL, None)
                         else
                           (case GetSequencePoints pSymMethod seqPointCount of
                              (hr2, points) \<Rightarrow>
                                if FAILED hr2 then (hr2, None)
                                else
                                  (case seqPointScan points ilOffset 0 None of
                                     None \<Rightarrow> (E_FAIL, None)
                                   | Some bestSoFar \<Rightarrow>
                                       (case documentURL (points ! bestSoFar) of
                                          (hr3, url) \<Rightarrow>
                                            if FAILED hr3 then (hr3, None)
                                            else (S_OK,
                                                  Some (line (points ! bestSoFar), url)))))))))"

text \<open>
  \<open>_wcsicmp(a, b) == 0\<close> of the C runtime: the two strings are equal once each
  character is lowered (\<open>A\<close> to \<open>Z\<close> in the C locale). Wide strings are modelled as
  \<open>string\<close>; a length counts characters, without the terminator.
\<close>

definition towlower :: "char \<Rightarrow> char" where
  "towlower c = (let n = (of_char c :: nat) in if 65 \<le> n \<and> n \<le> 90 then char_of (n + 32) else c)"

definition wcsicmp_eq :: "string \<Rightarrow> string \<Rightarrow> bool" where
  "wcsicmp_eq a b = (map towlower a = map towlower b)"

text \<open>
  The test on one document URL in the loop of \<open>ResolveSequencePoint\<close>: \<open>True\<close> when none
  of its \<open>continue\<close> statements is taken. \<open>cchUrl\<close> counts the terminator, as \<open>GetURL\<close>
  reports it; lengths are taken to be below \<open>2^32\<close>.
\<close>

definition urlMatchesFilename :: "string \<Rightarrow> string \<Rightarrow> bool" where
  "urlMatchesFilename pUrl pFilename =
     (let cchUrl = length pUrl + 1;
          filenameLen = length pFilename
      in if cchUrl - 1 = filenameLen
         then wcsicmp_eq pUrl pFilename
         else if cchUrl - 1 > filenameLen
         then (let slashLocation = cchUrl - filenameLen - 2 in
               if pUrl ! slashLocation \<noteq> CHR 0x5C \<and> pUrl ! slashLocation \<noteq> CHR ''/''
               then False
               else wcsicmp_eq (drop (slashLocation + 1) pUrl) pFilename)
         else False)"

text \<open>The \<open>for\<close> loop over the documents; the first document that passes decides.\<close>

fun ResolveSequencePoint_loop ::
  "ISymUnmanagedDocument list \<Rightarrow> string \<Rightarrow> ULONG32 \<Rightarrow> HRESULT \<times> (ULONG32 \<times> ULONG32) option" where
  "ResolveSequencePoint_loop [] pFilename lineNumber = (E_FAIL, None)"
| "ResolveSequencePoint_loop (doc # docs) pFilename lineNumber =
     (case GetURL doc of
        (hr0, pUrl) \<Rightarrow>
          if FAILED hr0 then (hr0, None)
          else if \<not> urlMatchesFilename pUrl pFilename
          then ResolveSequencePoint_loop docs pFilename lineNumber
          else
            (case FindClosestLine doc lineNumber of
               (hr1, closestLine) \<Rightarrow>
                 if FAILED hr1 then ResolveSequencePoint_loop docs pFilename lineNumber
                 else
                   (case GetMethodFromDocumentPosition doc closestLine of
                      (hr2, pSymUnmanagedMethod) \<Rightarrow>
                        if FAILED hr2 then (hr2, None)
                        else
                          (case GetToken pSymUnmanagedMethod of
                             (hr3, token) \<Rightarrow>
                               if FAILED hr3 then (hr3, None)
                               else
                                 (case GetOffset pSymUnmanagedMethod closestLine of
                                    (hr4, ilOffset) \<Rightarrow>
                                      if FAILED hr4 then (hr4, None)
                                      else if ilOffset = - 1 then (E_FAIL, None)
                                      else (S_OK, Some (token, ilOffset)))))))"

definition SymbolReader_ResolveSequencePoint ::
  "platform \<Rightarrow> portable_reader \<Rightarrow> SymbolReader \<Rightarrow> string \<Rightarrow> ULONG32
   \<Rightarrow> HRESULT \<times> (ULONG32 \<times> ULONG32) option" where
  "SymbolReader_ResolveSequencePoint p pr this pFilename lineNumber =
     (if m_symbolReaderHandle this \<noteq> 0
      then (if \<not> WideCharToMultiByte_ok pr pFilename then (E_FAIL, None)
            else (case ResolveSequencePointDelegate_op pr (m_symbolReaderHandle this)
                         pFilename lineNumber of
                    (ok, token, ilOffset) \<Rightarrow>
                      if \<not> ok then (E_FAIL, None) else (S_OK, Some (token, ilOffset))))
      else if FEATURE_PAL p then (E_FAIL, None)
      else
        (case m_pSymReader this of
           None \<Rightarrow> (E_FAIL, None)
         | Some reader \<Rightarrow>
             (case GetDocuments reader of
                (hr, pDocs) \<Rightarrow>
                  if FAILED hr then (hr, None)
                  else ResolveSequencePoint_loop pDocs pFilename lineNumber)))"

section \<open>A concrete installation\<close>

text \<open>
  A Linux host used to run the definitions on explicit inputs: a scratch directory, the
  directory of the extension, and an install root with several runtime versions.
\<close>

definition demo_files :: filesystem where
  "demo_files dir =
     (if dir = ''/tmp/sos42/''
      then [\<lparr>cFileName = ''libmscordaccore.so'', isDirectory = False\<rparr>,
            \<lparr>cFileName = ''cache'', isDirectory = True\<rparr>]
      else if dir = ''/usr/share/dotnet/shared/Microsoft.NETCore.App/''
      then [\<lparr>cFileName = ''2.1.5'', isDirectory = True\<rparr>,
            \<lparr>cFileName = ''2.1.30'', isDirectory = True\<rparr>,
            \<lparr>cFileName = ''2.2.8'', isDirectory = True\<rparr>,
            \<lparr>cFileName = ''2.1.99'', isDirectory = False\<rparr>]
      else if dir = ''/opt/sos/''
      then [\<lparr>cFileName = ''SOS.NETCore.dll'', isDirectory = False\<rparr>,
            \<lparr>cFileName = ''a.dll'', isDirectory = False\<rparr>,
            \<lparr>cFileName = ''b.dll'', isDirectory = False\<rparr>]
      else if dir = ''/usr/share/dotnet/shared/Microsoft.NETCore.App/2.1.30/''
      then [\<lparr>cFileName = ''a.dll'', isDirectory = False\<rparr>,
            \<lparr>cFileName = ''b.ni.dll'', isDirectory = False\<rparr>,
            \<lparr>cFileName = ''b.dll'', isDirectory = False\<rparr>]
      else [])"

definition demo_env :: env where
  "demo_env =
     \<lparr>platform = Linux,
      files = demo_files,
      access_F_OK = (\<lambda>path. path = ''/usr/share/dotnet/shared/Microsoft.NETCore.App''),
      PROGRAMFILES = None,
      ext_GetCoreClrDirectory = Some ''/debuggee'',
      realpath = Some,
      runtimeModuleName = (S_OK, []),
      GetFileAttributesA_error = (\<lambda>path. None),
      sosModulePath = Some ''/opt/sos'',
      LoadLibraryA = (\<lambda>path. True),
      GetProcAddress = (\<lambda>name. True),
      entrypointExecutable = Some ''/usr/bin/lldb'',
      initializeCoreCLR = (\<lambda>exe properties. S_OK),
      createDelegate = (\<lambda>assembly cls method. (S_OK, Some (length method))),
      SOSManagedDllName = ''SOS.NETCore'',
      SymbolReaderClassName = ''SOS.SymbolReader'',
      MetadataHelperClassName = ''SOS.MetadataHelper'',
      MAIN_CLR_DLL_NAME_A = ''libcoreclr.so''\<rparr>"

definition demo_state :: sos_state where
  "demo_state =
     \<lparr>g_hostingInitialized = False,
      g_symbolStoreInitialized = False,
      g_hostRuntimeDirectory = None,
      g_tmpPath = Some ''/tmp/sos42/'',
      g_SOSNetCoreCallbacks = (\<lambda>sl. 0),
      trace = []\<rparr>"

definition demo_services :: services where
  "demo_services =
     \<lparr>InitializeSymbolStore_managed = (\<lambda>logging msdl symweb server cache sympath. False),
      GetMetadataLocator_managed = (\<lambda>req. (S_OK, [1, 2, 3], 3)),
      GetSymbolPath = (S_OK, ''srv*c:/symbols'')\<rparr>"


text \<open>
  A legacy reader: one method with three sequence points, the middle one hidden, and two
  source documents.
\<close>

definition demo_points :: "seqpoint list" where
  "demo_points =
     [\<lparr>offset = 0, line = 1, documentURL = (S_OK, ''/src/foo.cs'')\<rparr>,
      \<lparr>offset = 5, line = HiddenLine, documentURL = (S_OK, ''/src/foo.cs'')\<rparr>,
      \<lparr>offset = 10, line = 3, documentURL = (S_OK, ''/src/foo.cs'')\<rparr>]"

definition demo_method :: ISymUnmanagedMethod where
  "demo_method =
     \<lparr>GetSequencePointCount = (S_OK, 3),
      GetSequencePoints = (\<lambda>cPoints. (S_OK, demo_points)),
      GetToken = (S_OK, 0x06000001),
      GetOffset = (\<lambda>closestLine. (S_OK, 10))\<rparr>"

definition demo_document :: "string \<Rightarrow> ISymUnmanagedDocument" where
  "demo_document url =
     \<lparr>GetURL = (S_OK, url),
      FindClosestLine = (\<lambda>lineNumber. (S_OK, lineNumber)),
      GetMethodFromDocumentPosition = (\<lambda>closestLine. (S_OK, demo_method))\<rparr>"

definition demo_SymbolReader :: SymbolReader where
  "demo_SymbolReader =
     \<lparr>m_symbolReaderHandle = 0,
      m_pSymReader =
        Some \<lparr>GetMethod = (\<lambda>methodToken. (S_OK, demo_method)),
              GetDocuments = (S_OK, [demo_document ''barfoo.cs'', demo_document ''/src/Foo.CS''])\<rparr>\<rparr>"

definition demo_portable :: portable_reader where
  "demo_portable =
     \<lparr>SysAllocStringLen_ok = True,
      GetLineByILOffsetDelegate_op = (\<lambda>handle methodToken ilOffset. (False, 0, [])),
      WideCharToMultiByte_ok = (\<lambda>name. True),
      ResolveSequencePointDelegate_op = (\<lambda>handle name lineNumber. (False, 0, 0))\<rparr>"

section \<open>Facts about result codes\<close>

lemma FAILED_E_FAIL: "FAILED E_FAIL"
  by (simp add: FAILED_def E_FAIL_def)

lemma FAILED_E_UNEXPECTED: "FAILED E_UNEXPECTED"
  by (simp add: FAILED_def E_UNEXPECTED_def)

lemma FAILED_E_ACCESSDENIED: "FAILED E_ACCESSDENIED"
  by (simp add: FAILED_def E_ACCESSDENIED_def)

lemma not_FAILED_S_OK: "\<not> FAILED S_OK"
  by (simp add: FAILED_def S_OK_def)

lemma SUCCEEDED_iff: "SUCCEEDED hr \<longleftrightarrow> \<not> FAILED hr"
  by (auto simp: SUCCEEDED_def FAILED_def)

section \<open>Scratch-directory cleanup\<close>

lemma SOSShutdown_loop_trace:
  "SOSShutdown_loop tmpPath ds st =
     st\<lparr>trace := trace st
        @ map (\<lambda>d. EvDeleteFileA (tmpPath @ cFileName d)) (filter (\<lambda>d. \<not> isDirectory d) ds)\<rparr>"
  by (induction ds arbitrary: st) (simp_all add: emit_def)

lemma SOSShutdown_null: "g_tmpPath st = None \<Longrightarrow> SOSShutdown env st = st"
  by (simp add: SOSShutdown_def Let_def)

lemma SOSShutdown_clears: "g_tmpPath (SOSShutdown env st) = None"
  by (simp add: SOSShutdown_def Let_def SOSShutdown_loop_trace emit_def split: option.split)

lemma SOSShutdown_fold_null:
  "g_tmpPath st = None \<Longrightarrow> fold SOSShutdown envs st = st"
  by (induction envs) (simp_all add: SOSShutdown_null)

text \<open>
  Claim C9. An invocation of \<open>SOSShutdown\<close> that finds \<open>g_tmpPath\<close> null changes nothing.
  One that finds a path sets \<open>g_tmpPath\<close> to null and performs the removal once: it
  deletes the files of the directory (not its subdirectories) and then removes the
  directory. After any invocation \<open>g_tmpPath\<close> is null, so every later invocation,
  whatever the file system then holds, leaves the state and the trace of removals as
  they are.
\<close>

theorem SOSShutdown_at_most_once:
  "(case g_tmpPath st of
      None \<Rightarrow> SOSShutdown env st = st
    | Some tmpPath \<Rightarrow>
        SOSShutdown env st =
          st\<lparr>g_tmpPath := None,
             trace := trace st
               @ map (\<lambda>d. EvDeleteFileA (tmpPath @ cFileName d))
                   (filter (\<lambda>d. \<not> isDirectory d) (FindFirstFileA (files env) (tmpPath @ ''*'')))
               @ [EvRemoveDirectoryA tmpPath]\<rparr>)
   \<and> g_tmpPath (SOSShutdown env st) = None
   \<and> fold SOSShutdown envs (SOSShutdown env st) = SOSShutdown env st"
proof -
  have first: "case g_tmpPath st of
      None \<Rightarrow> SOSShutdown env st = st
    | Some tmpPath \<Rightarrow>
        SOSShutdown env st =
          st\<lparr>g_tmpPath := None,
             trace := trace st
               @ map (\<lambda>d. EvDeleteFileA (tmpPath @ cFileName d))
                   (filter (\<lambda>d. \<not> isDirectory d) (FindFirstFileA (files env) (tmpPath @ ''*'')))
               @ [EvRemoveDirectoryA tmpPath]\<rparr>"
    by (simp add: SOSShutdown_def Let_def SOSShutdown_loop_trace emit_def split: option.split)
  have later: "fold SOSShutdown envs (SOSShutdown env st) = SOSShutdown env st"
    by (rule SOSShutdown_fold_null) (rule SOSShutdown_clears)
  from first SOSShutdown_clears later show ?thesis by blast
qed

theorem SOSShutdown_at_most_once_witness:
  "trace (SOSShutdown demo_env demo_state) =
     [EvDeleteFileA ''/tmp/sos42/libmscordaccore.so'', EvRemoveDirectoryA ''/tmp/sos42/'']
   \<and> fold SOSShutdown [demo_env, demo_env] (SOSShutdown demo_env demo_state)
       = SOSShutdown demo_env demo_state"
proof -
  note th = SOSShutdown_at_most_once
          [where st = demo_state and env = demo_env and envs = "[demo_env, demo_env]"]
  have g: "g_tmpPath demo_state = Some ''/tmp/sos42/''"
    by (simp add: demo_state_def)
  have f: "FindFirstFileA (files demo_env) (''/tmp/sos42/'' @ ''*'') =
             [\<lparr>cFileName = ''libmscordaccore.so'', isDirectory = False\<rparr>,
              \<lparr>cFileName = ''cache'', isDirectory = True\<rparr>]"
    by (simp add: FindFirstFileA_def demo_env_def demo_files_def)
  from th g f have "trace (SOSShutdown demo_env demo_state) =
      trace demo_state @ [EvDeleteFileA ''/tmp/sos42/libmscordaccore.so'',
                          EvRemoveDirectoryA ''/tmp/sos42/'']"
    by simp
  then have t: "trace (SOSShutdown demo_env demo_state) =
      [EvDeleteFileA ''/tmp/sos42/libmscordaccore.so'', EvRemoveDirectoryA ''/tmp/sos42/'']"
    by (simp add: demo_state_def)
  from th t show ?thesis by blast
qed

section \<open>The bootstrap of the hosted runtime\<close>

lemma GetHostRuntime_frame:
  "GetHostRuntime env st = (hr, p, d, st1) \<Longrightarrow>
     g_hostingInitialized st1 = g_hostingInitialized st
     \<and> g_symbolStoreInitialized st1 = g_symbolStoreInitialized st
     \<and> g_tmpPath st1 = g_tmpPath st
     \<and> trace st1 = trace st"
  by (auto simp: GetHostRuntime_def Let_def split: option.splits prod.splits if_splits)

lemma bindDelegates_frame:
  "g_hostingInitialized (snd (bindDelegates env tbl Status st)) = g_hostingInitialized st
   \<and> g_symbolStoreInitialized (snd (bindDelegates env tbl Status st)) = g_symbolStoreInitialized st
   \<and> g_tmpPath (snd (bindDelegates env tbl Status st)) = g_tmpPath st"
  by (induction env tbl Status st rule: bindDelegates.induct)
     (auto simp: emit_def Let_def split: prod.splits option.splits)

lemma bindDelegates_FAILED:
  "\<not> FAILED Status \<Longrightarrow>
     (\<not> FAILED (fst (bindDelegates env tbl Status st))) =
       list_all (\<lambda>(cls, method, sl).
                  \<not> FAILED (fst (createDelegate env (SOSManagedDllName env) cls method))) tbl"
  by (induction env tbl Status st rule: bindDelegates.induct)
     (auto simp: Let_def split: prod.splits option.splits)

lemma bindDelegates_trace:
  "\<not> FAILED Status \<Longrightarrow> \<not> FAILED (fst (bindDelegates env tbl Status st)) \<Longrightarrow>
     trace (snd (bindDelegates env tbl Status st)) =
       trace st @ map (\<lambda>(cls, method, sl). EvCreateDelegate (SOSManagedDllName env) cls method) tbl"
  by (induction env tbl Status st rule: bindDelegates.induct)
     (auto simp: emit_def Let_def split: prod.splits option.splits if_splits)

lemma bindDelegates_result:
  assumes "bindDelegates env tbl Status st = (hr, st')" "\<not> FAILED Status"
  shows "g_hostingInitialized st' = g_hostingInitialized st"
    and "(\<not> FAILED hr) =
           list_all (\<lambda>(cls, method, sl).
                      \<not> FAILED (fst (createDelegate env (SOSManagedDllName env) cls method))) tbl"
    and "\<not> FAILED hr \<Longrightarrow>
           trace st' = trace st
             @ map (\<lambda>(cls, method, sl). EvCreateDelegate (SOSManagedDllName env) cls method) tbl"
  using assms bindDelegates_frame [of env tbl Status st]
    bindDelegates_FAILED [of Status env tbl st] bindDelegates_trace [of Status env tbl st]
  by simp_all

lemma InitializeHosting_initialized:
  "g_hostingInitialized st \<Longrightarrow> InitializeHosting env st = (S_OK, st)"
  by (simp add: InitializeHosting_def)

lemma InitializeHosting_flag_steps:
  assumes "\<not> g_hostingInitialized st"
  shows "g_hostingInitialized (snd (InitializeHosting env st)) = bootstrapStepsSucceed env st"
proof -
  obtain hr p d st1 where g: "GetHostRuntime env st = (hr, p, d, st1)"
    by (cases "GetHostRuntime env st") auto
  from GetHostRuntime_frame [OF g] assms have f1: "\<not> g_hostingInitialized st1" by simp
  show ?thesis
    using assms f1 g
    by (auto simp: InitializeHosting_def bootstrapStepsSucceed_def Let_def emit_def
          split: option.splits prod.splits
          dest: bindDelegates_result)
qed

lemma InitializeHosting_flag_status:
  assumes "\<not> g_hostingInitialized st"
  shows "g_hostingInitialized (snd (InitializeHosting env st)) = (\<not> FAILED (fst (InitializeHosting env st)))"
proof -
  obtain hr p d st1 where g: "GetHostRuntime env st = (hr, p, d, st1)"
    by (cases "GetHostRuntime env st") auto
  from GetHostRuntime_frame [OF g] assms have f1: "\<not> g_hostingInitialized st1" by simp
  show ?thesis
    using assms f1 g
    by (auto simp: InitializeHosting_def Let_def emit_def FAILED_E_FAIL
          split: option.splits prod.splits
          dest: bindDelegates_result(1))
qed

lemma InitializeHosting_trace:
  assumes "\<not> g_hostingInitialized st" "g_hostingInitialized (snd (InitializeHosting env st))"
  shows "trace (snd (InitializeHosting env st)) = trace st @ bootstrapEvents env st"
proof -
  obtain hr p d st1 where g: "GetHostRuntime env st = (hr, p, d, st1)"
    by (cases "GetHostRuntime env st") auto
  from GetHostRuntime_frame [OF g] have f1: "trace st1 = trace st" by simp
  from assms have ok: "bootstrapStepsSucceed env st"
    by (simp add: InitializeHosting_flag_steps)
  then obtain sosDir exe where
    c: "\<not> FAILED hr" "sosModuleDirectory env = Some sosDir" "LoadLibraryA env p"
       "GetProcAddress env ''coreclr_initialize''" "GetProcAddress env ''coreclr_create_delegate''"
       "entrypointExecutable env = Some exe"
       "\<not> FAILED (initializeCoreCLR env exe (hostProperties env sosDir d))"
    using g by (auto simp: bootstrapStepsSucceed_def split: option.splits)
  define st4 where "st4 = st1\<lparr>trace := trace st1 @
      [EvLoadLibrary p, EvGetProcAddress ''coreclr_initialize'',
       EvGetProcAddress ''coreclr_create_delegate'',
       EvInitializeCoreCLR exe (hostProperties env sosDir d)]\<rparr>"
  obtain hr2 st5 where b: "bindDelegates env (delegateTable env)
      (initializeCoreCLR env exe (hostProperties env sosDir d)) st4 = (hr2, st5)"
    by (cases "bindDelegates env (delegateTable env)
      (initializeCoreCLR env exe (hostProperties env sosDir d)) st4") auto
  have u: "InitializeHosting env st =
      (if FAILED hr2 then (hr2, st5) else (hr2, st5\<lparr>g_hostingInitialized := True\<rparr>))"
    using assms(1) g c b by (simp add: InitializeHosting_def Let_def emit_def st4_def)
  from bindDelegates_result(1) [OF b c(7)] GetHostRuntime_frame [OF g] assms(1)
  have "\<not> g_hostingInitialized st5" by (simp add: st4_def)
  with u assms(2) have nf: "\<not> FAILED hr2" by (auto split: if_splits)
  from bindDelegates_result(3) [OF b c(7) nf]
  have "trace st5 = trace st4
      @ map (\<lambda>(cls, method, sl). EvCreateDelegate (SOSManagedDllName env) cls method)
          (delegateTable env)" .
  with u nf f1 g c show ?thesis
    by (simp add: bootstrapEvents_def st4_def)
qed

text \<open>
  Claim C2. A call that finds \<open>g_hostingInitialized\<close> set returns \<open>S_OK\<close> at once: the
  state, with its trace of outside calls, is unchanged, whatever the outside world is.
  A call that finds it unset leaves it set exactly when every step of the bootstrap
  succeeded, which is exactly when the status returned is not a failure; it then has made
  the load, the two entry-point lookups, the start of the runtime and the ten delegate
  creations, in this order, and any later call returns \<open>S_OK\<close> at once. After a failed
  call the flag is still unset, so the next call again sets it exactly when every step
  succeeds in the world it then finds.
\<close>

theorem InitializeHosting_flag_only_on_full_success:
  "(g_hostingInitialized st \<longrightarrow> InitializeHosting env st = (S_OK, st))
   \<and> (\<not> g_hostingInitialized st \<longrightarrow>
        g_hostingInitialized (snd (InitializeHosting env st)) = bootstrapStepsSucceed env st
        \<and> g_hostingInitialized (snd (InitializeHosting env st))
            = (\<not> FAILED (fst (InitializeHosting env st)))
        \<and> (g_hostingInitialized (snd (InitializeHosting env st)) \<longrightarrow>
              trace (snd (InitializeHosting env st)) = trace st @ bootstrapEvents env st
              \<and> InitializeHosting env' (snd (InitializeHosting env st))
                  = (S_OK, snd (InitializeHosting env st)))
        \<and> (FAILED (fst (InitializeHosting env st)) \<longrightarrow>
              g_hostingInitialized (snd (InitializeHosting env' (snd (InitializeHosting env st))))
                = bootstrapStepsSucceed env' (snd (InitializeHosting env st))))"
proof (intro conjI impI)
  assume "g_hostingInitialized st"
  then show "InitializeHosting env st = (S_OK, st)"
    by (rule InitializeHosting_initialized)
next
  assume n: "\<not> g_hostingInitialized st"
  show "g_hostingInitialized (snd (InitializeHosting env st)) = bootstrapStepsSucceed env st"
    by (rule InitializeHosting_flag_steps [OF n])
  show s: "g_hostingInitialized (snd (InitializeHosting env st))
            = (\<not> FAILED (fst (InitializeHosting env st)))"
    by (rule InitializeHosting_flag_status [OF n])
  {
    assume f: "g_hostingInitialized (snd (InitializeHosting env st))"
    show "trace (snd (InitializeHosting env st)) = trace st @ bootstrapEvents env st"
      by (rule InitializeHosting_trace [OF n f])
    show "InitializeHosting env' (snd (InitializeHosting env st))
                  = (S_OK, snd (InitializeHosting env st))"
      by (rule InitializeHosting_initialized [OF f])
  }
  {
    assume "FAILED (fst (InitializeHosting env st))"
    with s have "\<not> g_hostingInitialized (snd (InitializeHosting env st))" by simp
    then show "g_hostingInitialized (snd (InitializeHosting env' (snd (InitializeHosting env st))))
                = bootstrapStepsSucceed env' (snd (InitializeHosting env st))"
      by (rule InitializeHosting_flag_steps)
  }
qed

lemma demo_bootstrap: "bootstrapStepsSucceed demo_env demo_state"
  by code_simp

lemma demo_bootstrap_fails:
  "\<not> bootstrapStepsSucceed (demo_env\<lparr>LoadLibraryA := (\<lambda>path. False)\<rparr>) demo_state"
  by code_simp

theorem InitializeHosting_flag_only_on_full_success_witness:
  "\<not> g_hostingInitialized demo_state
   \<and> g_hostingInitialized (snd (InitializeHosting demo_env demo_state))
   \<and> \<not> FAILED (fst (InitializeHosting demo_env demo_state))
   \<and> InitializeHosting demo_env (snd (InitializeHosting demo_env demo_state))
       = (S_OK, snd (InitializeHosting demo_env demo_state))
   \<and> FAILED (fst (InitializeHosting (demo_env\<lparr>LoadLibraryA := (\<lambda>path. False)\<rparr>) demo_state))
   \<and> g_hostingInitialized
        (snd (InitializeHosting demo_env
           (snd (InitializeHosting (demo_env\<lparr>LoadLibraryA := (\<lambda>path. False)\<rparr>) demo_state))))
       = bootstrapStepsSucceed demo_env
           (snd (InitializeHosting (demo_env\<lparr>LoadLibraryA := (\<lambda>path. False)\<rparr>) demo_state))"
proof -
  have n: "\<not> g_hostingInitialized demo_state"
    by (simp add: demo_state_def)
  note ok = InitializeHosting_flag_only_on_full_success
      [where st = demo_state and env = demo_env and env' = demo_env]
  note bad = InitializeHosting_flag_only_on_full_success
      [where st = demo_state and env = "demo_env\<lparr>LoadLibraryA := (\<lambda>path. False)\<rparr>"
         and env' = demo_env]
  from ok n demo_bootstrap
  have a: "g_hostingInitialized (snd (InitializeHosting demo_env demo_state))
     \<and> \<not> FAILED (fst (InitializeHosting demo_env demo_state))
     \<and> InitializeHosting demo_env (snd (InitializeHosting demo_env demo_state))
       = (S_OK, snd (InitializeHosting demo_env demo_state))"
    by blast
  from bad n demo_bootstrap_fails
  have b: "FAILED (fst (InitializeHosting (demo_env\<lparr>LoadLibraryA := (\<lambda>path. False)\<rparr>) demo_state))"
    by blast
  with bad n
  have c: "g_hostingInitialized
        (snd (InitializeHosting demo_env
           (snd (InitializeHosting (demo_env\<lparr>LoadLibraryA := (\<lambda>path. False)\<rparr>) demo_state))))
       = bootstrapStepsSucceed demo_env
           (snd (InitializeHosting (demo_env\<lparr>LoadLibraryA := (\<lambda>path. False)\<rparr>) demo_state))"
    by blast
  from n a b c show ?thesis by blast
qed

section \<open>Metadata location\<close>

lemma bindDelegates_count:
  "count_list (trace (snd (bindDelegates env tbl Status st))) (EvInvoke sl)
     = count_list (trace st) (EvInvoke sl)"
  by (induction env tbl Status st rule: bindDelegates.induct)
     (auto simp: emit_def Let_def split: prod.splits option.splits)

lemma bindDelegates_result_frame:
  assumes "bindDelegates env tbl Status st = (hr, st')"
  shows "g_symbolStoreInitialized st' = g_symbolStoreInitialized st"
    and "g_tmpPath st' = g_tmpPath st"
    and "count_list (trace st') (EvInvoke sl) = count_list (trace st) (EvInvoke sl)"
  using assms bindDelegates_frame [of env tbl Status st]
    bindDelegates_count [of env tbl Status st sl]
  by simp_all

lemma InitializeHosting_frame:
  "g_symbolStoreInitialized (snd (InitializeHosting env st)) = g_symbolStoreInitialized st
   \<and> g_tmpPath (snd (InitializeHosting env st)) = g_tmpPath st
   \<and> count_list (trace (snd (InitializeHosting env st))) (EvInvoke sl)
       = count_list (trace st) (EvInvoke sl)"
proof -
  obtain hr p d st1 where g: "GetHostRuntime env st = (hr, p, d, st1)"
    by (cases "GetHostRuntime env st") auto
  note f = GetHostRuntime_frame [OF g]
  show ?thesis
    using g f
    by (auto simp: InitializeHosting_def Let_def emit_def
          split: option.splits prod.splits
          dest: bindDelegates_result_frame)
qed







section \<open>Symbol-store initialization\<close>

lemma InitializeSymbolStore_sympath_sets:
  "\<not> FEATURE_PAL (platform env) \<Longrightarrow> g_symbolStoreInitialized (InitializeSymbolStore_sympath env svc st)"
  by (simp add: InitializeSymbolStore_sympath_def Let_def emit_def split: prod.splits)

lemma InitializeSymbolStore_sympath_skip:
  "g_symbolStoreInitialized st \<Longrightarrow> InitializeSymbolStore_sympath env svc st = st"
  by (simp add: InitializeSymbolStore_sympath_def)

text \<open>
  Claim C10. Where the body of the symbol-path variant is compiled (no \<open>FEATURE_PAL\<close>),
  a call leaves \<open>g_symbolStoreInitialized\<close> set whatever the symbol path and the parsing
  operation answer; when the path is read, is not empty and its parsing fails, the state
  is the old one with the flag set and the path query, the invocation and the error
  message appended to the trace; and a later call, whatever the services then answer,
  changes nothing, so the parsing is not attempted again. The variant with explicit
  arguments leaves the flag set when it succeeds and as it was when it fails, and it
  succeeds exactly when the bootstrap does not fail and the initialize operation
  answers true.
\<close>

theorem InitializeSymbolStore_flag_order:
  "(\<not> FEATURE_PAL (platform env) \<longrightarrow>
      g_symbolStoreInitialized (InitializeSymbolStore_sympath env svc st)
      \<and> InitializeSymbolStore_sympath env svc' (InitializeSymbolStore_sympath env svc st)
          = InitializeSymbolStore_sympath env svc st
      \<and> (\<not> g_symbolStoreInitialized st \<and> SUCCEEDED (fst (GetSymbolPath svc))
           \<and> length (snd (GetSymbolPath svc)) > 0
           \<and> \<not> InitializeSymbolStore_managed svc False False False None None
                  (Some (snd (GetSymbolPath svc))) \<longrightarrow>
          InitializeSymbolStore_sympath env svc st
            = st\<lparr>g_symbolStoreInitialized := True,
                 trace := trace st @ [EvGetSymbolPath, EvInvoke InitializeSymbolStoreDelegate,
                                      EvExtErr ''Windows symbol path parsing FAILED'']\<rparr>))
   \<and> g_symbolStoreInitialized
        (snd (InitializeSymbolStore env svc logging msdl symweb symbolServer cacheDirectory st))
       = (if FAILED (fst (InitializeSymbolStore env svc logging msdl symweb symbolServer
                            cacheDirectory st))
          then g_symbolStoreInitialized st else True)
   \<and> (\<not> FAILED (fst (InitializeSymbolStore env svc logging msdl symweb symbolServer
                            cacheDirectory st))
        \<longleftrightarrow> \<not> FAILED (fst (InitializeHosting env st))
            \<and> InitializeSymbolStore_managed svc logging msdl symweb symbolServer
                 cacheDirectory None)"
proof (intro conjI impI)
  assume w: "\<not> FEATURE_PAL (platform env)"
  then show s: "g_symbolStoreInitialized (InitializeSymbolStore_sympath env svc st)"
    by (rule InitializeSymbolStore_sympath_sets)
  from s show "InitializeSymbolStore_sympath env svc' (InitializeSymbolStore_sympath env svc st)
          = InitializeSymbolStore_sympath env svc st"
    by (rule InitializeSymbolStore_sympath_skip)
  assume "\<not> g_symbolStoreInitialized st \<and> SUCCEEDED (fst (GetSymbolPath svc))
           \<and> length (snd (GetSymbolPath svc)) > 0
           \<and> \<not> InitializeSymbolStore_managed svc False False False None None
                  (Some (snd (GetSymbolPath svc)))"
  with w show "InitializeSymbolStore_sympath env svc st
            = st\<lparr>g_symbolStoreInitialized := True,
                 trace := trace st @ [EvGetSymbolPath, EvInvoke InitializeSymbolStoreDelegate,
                                      EvExtErr ''Windows symbol path parsing FAILED'']\<rparr>"
    by (cases "GetSymbolPath svc")
       (simp add: InitializeSymbolStore_sympath_def Let_def emit_def)
next
  show "g_symbolStoreInitialized
        (snd (InitializeSymbolStore env svc logging msdl symweb symbolServer cacheDirectory st))
       = (if FAILED (fst (InitializeSymbolStore env svc logging msdl symweb symbolServer
                            cacheDirectory st))
          then g_symbolStoreInitialized st else True)"
    using InitializeHosting_frame [of env st]
    by (cases "InitializeHosting env st")
       (simp add: InitializeSymbolStore_def Let_def emit_def FAILED_E_FAIL not_FAILED_S_OK)
  show "(\<not> FAILED (fst (InitializeSymbolStore env svc logging msdl symweb symbolServer
                            cacheDirectory st)))
        \<longleftrightarrow> (\<not> FAILED (fst (InitializeHosting env st))
            \<and> InitializeSymbolStore_managed svc logging msdl symweb symbolServer
                 cacheDirectory None)"
    by (cases "InitializeHosting env st")
       (simp add: InitializeSymbolStore_def Let_def emit_def FAILED_E_FAIL not_FAILED_S_OK)
qed

theorem InitializeSymbolStore_flag_order_witness:
  "\<not> FEATURE_PAL (platform (demo_env\<lparr>platform := Windows\<rparr>))
   \<and> InitializeSymbolStore_sympath (demo_env\<lparr>platform := Windows\<rparr>) demo_services demo_state
       = demo_state\<lparr>g_symbolStoreInitialized := True,
            trace := [EvGetSymbolPath, EvInvoke InitializeSymbolStoreDelegate,
                      EvExtErr ''Windows symbol path parsing FAILED'']\<rparr>
   \<and> InitializeSymbolStore_sympath (demo_env\<lparr>platform := Windows\<rparr>) demo_services
        (InitializeSymbolStore_sympath (demo_env\<lparr>platform := Windows\<rparr>) demo_services demo_state)
       = InitializeSymbolStore_sympath (demo_env\<lparr>platform := Windows\<rparr>) demo_services demo_state
   \<and> FAILED (fst (InitializeSymbolStore demo_env demo_services False False False None None demo_state))
   \<and> \<not> g_symbolStoreInitialized
         (snd (InitializeSymbolStore demo_env demo_services False False False None None demo_state))"
proof -
  note th = InitializeSymbolStore_flag_order
      [where env = "demo_env\<lparr>platform := Windows\<rparr>" and svc = demo_services
         and svc' = demo_services and st = demo_state]
  note th2 = InitializeSymbolStore_flag_order
      [where env = demo_env and svc = demo_services and st = demo_state
         and logging = False and msdl = False and symweb = False
         and symbolServer = None and cacheDirectory = None]
  have w: "\<not> FEATURE_PAL (platform (demo_env\<lparr>platform := Windows\<rparr>))"
    by (simp add: FEATURE_PAL_def)
  have h: "\<not> g_symbolStoreInitialized demo_state \<and> SUCCEEDED (fst (GetSymbolPath demo_services))
           \<and> length (snd (GetSymbolPath demo_services)) > 0
           \<and> \<not> InitializeSymbolStore_managed demo_services False False False None None
                  (Some (snd (GetSymbolPath demo_services)))"
    by (simp add: demo_state_def demo_services_def SUCCEEDED_def S_OK_def)
  have t: "trace demo_state = []"
    by (simp add: demo_state_def)
  from th w h t have a:
    "InitializeSymbolStore_sympath (demo_env\<lparr>platform := Windows\<rparr>) demo_services demo_state
       = demo_state\<lparr>g_symbolStoreInitialized := True,
            trace := [EvGetSymbolPath, EvInvoke InitializeSymbolStoreDelegate,
                      EvExtErr ''Windows symbol path parsing FAILED'']\<rparr>"
    by simp
  from th w have b:
    "InitializeSymbolStore_sympath (demo_env\<lparr>platform := Windows\<rparr>) demo_services
        (InitializeSymbolStore_sympath (demo_env\<lparr>platform := Windows\<rparr>) demo_services demo_state)
       = InitializeSymbolStore_sympath (demo_env\<lparr>platform := Windows\<rparr>) demo_services demo_state"
    by blast
  have m: "\<not> InitializeSymbolStore_managed demo_services False False False None None None"
    by (simp add: demo_services_def)
  from th2 m have c:
    "FAILED (fst (InitializeSymbolStore demo_env demo_services False False False None None demo_state))"
    by blast
  with th2 have d: "\<not> g_symbolStoreInitialized
         (snd (InitializeSymbolStore demo_env demo_services False False False None None demo_state))"
    by (simp add: demo_state_def)
  from w a b c d show ?thesis by blast
qed

section \<open>Reads over metadata ranges\<close>

lemma IsMetadataMemory_overlap:
  "IsMetadataMemory regions address request \<longleftrightarrow>
     (\<exists>(start, stop) \<in> set regions. \<exists>a. unat address \<le> a \<and> a < unat address + unat request
                                          \<and> start \<le> a \<and> a < stop)"
proof -
  have "\<And>s e (x::nat) r. (max s x < min e (x + r)) = (\<exists>a. x \<le> a \<and> a < x + r \<and> s \<le> a \<and> a < e)"
  proof
    fix s e x r :: nat
    assume "max s x < min e (x + r)"
    then have "x \<le> max s x \<and> max s x < x + r \<and> s \<le> max s x \<and> max s x < e" by auto
    then show "\<exists>a. x \<le> a \<and> a < x + r \<and> s \<le> a \<and> a < e" by blast
  next
    fix s e x r :: nat
    assume "\<exists>a. x \<le> a \<and> a < x + r \<and> s \<le> a \<and> a < e"
    then show "max s x < min e (x + r)" by auto
  qed
  then show ?thesis
    by (auto simp: IsMetadataMemory_def list_ex_iff)
qed

text \<open>
  Claim C6, as the code has it. Without a memory service every read fails with
  \<open>E_UNEXPECTED\<close>. With one, on a \<open>FEATURE_PAL\<close> platform and with a non-null
  \<open>g_sos\<close>, a read that shares a byte address with a known metadata range fails with
  \<open>E_ACCESSDENIED\<close> and is not forwarded; a read that shares none is answered by the
  memory service, unchanged; and so is every read when \<open>g_sos\<close> is null or the platform
  is not a \<open>FEATURE_PAL\<close> one.
\<close>

theorem ReadVirtual_metadata_guard:
  "(g_ExtData = None \<longrightarrow>
      DataTarget_ReadVirtual p g_ExtData g_sos regions address request = (E_UNEXPECTED, None))
   \<and> (\<forall>ReadVirtual. g_ExtData = Some ReadVirtual \<longrightarrow>
        (FEATURE_PAL p \<and> g_sos
         \<and> (\<exists>(start, stop) \<in> set regions.
               \<exists>a. unat address \<le> a \<and> a < unat address + unat request \<and> start \<le> a \<and> a < stop)
         \<longrightarrow> DataTarget_ReadVirtual p g_ExtData g_sos regions address request
               = (E_ACCESSDENIED, None))
        \<and> (\<not> (\<exists>(start, stop) \<in> set regions.
               \<exists>a. unat address \<le> a \<and> a < unat address + unat request \<and> start \<le> a \<and> a < stop)
         \<longrightarrow> DataTarget_ReadVirtual p g_ExtData g_sos regions address request
               = ReadVirtual address request)
        \<and> (\<not> g_sos \<or> \<not> FEATURE_PAL p
         \<longrightarrow> DataTarget_ReadVirtual p g_ExtData g_sos regions address request
               = ReadVirtual address request))"
  by (auto simp: DataTarget_ReadVirtual_def IsMetadataMemory_overlap)

theorem ReadVirtual_metadata_guard_witness:
  "DataTarget_ReadVirtual Linux (Some (\<lambda>address request. (S_OK, Some (replicate (unat request) 0, request))))
      True [(4096, 8192)] 8000 1000 = (E_ACCESSDENIED, None)
   \<and> DataTarget_ReadVirtual Linux (Some (\<lambda>address request. (S_OK, Some (replicate (unat request) 0, request))))
      True [(4096, 8192)] 8192 4 = (S_OK, Some (replicate 4 0, 4))
   \<and> DataTarget_ReadVirtual Linux None True [(4096, 8192)] 8000 1000 = (E_UNEXPECTED, None)"
proof -
  let ?rv = "\<lambda>(address :: ULONG64) (request :: ULONG32).
               (S_OK, Some (replicate (unat request) (0 :: 8 word), request))"
  note a = ReadVirtual_metadata_guard
     [where p = Linux and g_ExtData = "Some ?rv" and g_sos = True
        and regions = "[(4096, 8192)]" and address = 8000 and request = 1000]
  note b = ReadVirtual_metadata_guard
     [where p = Linux and g_ExtData = "Some ?rv" and g_sos = True
        and regions = "[(4096, 8192)]" and address = 8192 and request = 4]
  note c = ReadVirtual_metadata_guard
     [where p = Linux and g_ExtData = None and g_sos = True
        and regions = "[(4096, 8192)]" and address = 8000 and request = 1000]
  have o: "\<exists>(start, stop) \<in> set [(4096 :: nat, 8192 :: nat)].
               \<exists>a. unat (8000 :: ULONG64) \<le> a \<and> a < unat (8000 :: ULONG64) + unat (1000 :: ULONG32)
                   \<and> start \<le> a \<and> a < stop"
    by (auto intro: exI [of _ 8000])
  have n: "\<not> (\<exists>(start, stop) \<in> set [(4096 :: nat, 8192 :: nat)].
               \<exists>a. unat (8192 :: ULONG64) \<le> a \<and> a < unat (8192 :: ULONG64) + unat (4 :: ULONG32)
                   \<and> start \<le> a \<and> a < stop)"
    by auto
  have pal: "FEATURE_PAL Linux" by (simp add: FEATURE_PAL_def)
  from a o pal have 1: "DataTarget_ReadVirtual Linux (Some ?rv) True [(4096, 8192)] 8000 1000
      = (E_ACCESSDENIED, None)" by blast
  from b n have "DataTarget_ReadVirtual Linux (Some ?rv) True [(4096, 8192)] 8192 4
      = ?rv 8192 4" by blast
  then have 2: "DataTarget_ReadVirtual Linux (Some ?rv) True [(4096, 8192)] 8192 4
      = (S_OK, Some (replicate 4 0, 4))" by simp
  from c have 3: "DataTarget_ReadVirtual Linux None True [(4096, 8192)] 8000 1000
      = (E_UNEXPECTED, None)" by blast
  from 1 2 3 show ?thesis by blast
qed

text \<open>
  A read inside a known metadata range is forwarded when \<open>g_sos\<close> is null, and fails
  with \<open>E_UNEXPECTED\<close> when there is no memory service.
\<close>

theorem ReadVirtual_metadata_guard_counterexample:
  "IsMetadataMemory [(4096, 8192)] 8000 1000
   \<and> DataTarget_ReadVirtual Linux
        (Some (\<lambda>address request. (S_OK, Some (replicate (unat request) 0, request))))
        False [(4096, 8192)] 8000 1000
       = (S_OK, Some (replicate 1000 0, 1000))
   \<and> DataTarget_ReadVirtual Linux None True [(4096, 8192)] 8000 1000 = (E_UNEXPECTED, None)
   \<and> E_UNEXPECTED \<noteq> E_ACCESSDENIED \<and> S_OK \<noteq> E_ACCESSDENIED"
  by (simp add: DataTarget_ReadVirtual_def IsMetadataMemory_def
        E_UNEXPECTED_def E_ACCESSDENIED_def S_OK_def)

section \<open>The current thread around a context fetch\<close>



section \<open>Matching a file name against document URLs\<close>

lemma urlMatches_foo_same: "urlMatchesFilename ''foo.cs'' ''foo.cs''" by code_simp
lemma urlMatches_foo_path: "urlMatchesFilename ''/src/foo.cs'' ''foo.cs''" by code_simp
lemma urlMatches_foo_barfoo: "\<not> urlMatchesFilename ''barfoo.cs'' ''foo.cs''" by code_simp

text \<open>
  Claim C7. In the legacy path of \<open>ResolveSequencePoint\<close> a document URL passes the
  file-name test exactly when it is as long as the file name and equal to it without
  regard to case, or it is longer, its tail of the file name's length is equal to the file
  name without regard to case, and the character just before that tail is a backslash or
  a slash. So \<open>foo.cs\<close> matches the URLs \<open>foo.cs\<close> and \<open>/src/foo.cs\<close> and not
  \<open>barfoo.cs\<close>. A document whose URL is read and does not pass is skipped by the loop.
\<close>

theorem urlMatchesFilename_iff:
  "(urlMatchesFilename pUrl pFilename \<longleftrightarrow>
      (length pUrl = length pFilename \<and> wcsicmp_eq pUrl pFilename)
      \<or> (length pUrl > length pFilename
          \<and> wcsicmp_eq (drop (length pUrl - length pFilename) pUrl) pFilename
          \<and> (pUrl ! (length pUrl - length pFilename - 1) = CHR 0x5C
               \<or> pUrl ! (length pUrl - length pFilename - 1) = CHR ''/'')))
   \<and> urlMatchesFilename ''foo.cs'' ''foo.cs''
   \<and> urlMatchesFilename ''/src/foo.cs'' ''foo.cs''
   \<and> \<not> urlMatchesFilename ''barfoo.cs'' ''foo.cs''
   \<and> (\<not> FAILED (fst (GetURL doc)) \<and> \<not> urlMatchesFilename (snd (GetURL doc)) pFilename
        \<longrightarrow> ResolveSequencePoint_loop (doc # docs) pFilename lineNumber
            = ResolveSequencePoint_loop docs pFilename lineNumber)"
proof -
  have a: "urlMatchesFilename pUrl pFilename \<longleftrightarrow>
      (length pUrl = length pFilename \<and> wcsicmp_eq pUrl pFilename)
      \<or> (length pUrl > length pFilename
          \<and> wcsicmp_eq (drop (length pUrl - length pFilename) pUrl) pFilename
          \<and> (pUrl ! (length pUrl - length pFilename - 1) = CHR 0x5C
               \<or> pUrl ! (length pUrl - length pFilename - 1) = CHR ''/''))"
  proof (cases "length pUrl = length pFilename")
    case True
    then show ?thesis by (simp add: urlMatchesFilename_def Let_def)
  next
    case False
    show ?thesis
    proof (cases "length pUrl > length pFilename")
      case True
      then have "Suc (Suc (length pUrl) - length pFilename - 2) = length pUrl - length pFilename"
        and "Suc (length pUrl) - length pFilename - 2 = length pUrl - length pFilename - 1"
        by arith+
      with True False show ?thesis
        by (auto simp: urlMatchesFilename_def Let_def)
    next
      case False
      with \<open>length pUrl \<noteq> length pFilename\<close> show ?thesis
        by (simp add: urlMatchesFilename_def Let_def)
    qed
  qed
  have b: "\<not> FAILED (fst (GetURL doc)) \<and> \<not> urlMatchesFilename (snd (GetURL doc)) pFilename
        \<longrightarrow> ResolveSequencePoint_loop (doc # docs) pFilename lineNumber
            = ResolveSequencePoint_loop docs pFilename lineNumber"
    by (cases "GetURL doc") simp
  from a b urlMatches_foo_same urlMatches_foo_path urlMatches_foo_barfoo show ?thesis by blast
qed

lemma demo_resolve:
  "SymbolReader_ResolveSequencePoint Windows demo_portable demo_SymbolReader ''foo.cs'' 12
     = (S_OK, Some (0x06000001, 10))"
  by code_simp

theorem urlMatchesFilename_iff_witness:
  "\<not> urlMatchesFilename ''barfoo.cs'' ''foo.cs''
   \<and> urlMatchesFilename ''/src/Foo.CS'' ''foo.cs''
   \<and> ResolveSequencePoint_loop [demo_document ''barfoo.cs'', demo_document ''/src/Foo.CS'']
         ''foo.cs'' 12
       = ResolveSequencePoint_loop [demo_document ''/src/Foo.CS''] ''foo.cs'' 12
   \<and> ResolveSequencePoint_loop [demo_document ''/src/Foo.CS''] ''foo.cs'' 12
       = (S_OK, Some (0x06000001, 10))"
proof -
  note th = urlMatchesFilename_iff
     [where doc = "demo_document ''barfoo.cs''" and docs = "[demo_document ''/src/Foo.CS'']"
        and pFilename = "''foo.cs''" and lineNumber = 12 and pUrl = "''/src/Foo.CS''"]
  have u: "GetURL (demo_document ''barfoo.cs'') = (S_OK, ''barfoo.cs'')"
    by (simp add: demo_document_def)
  from th have n: "\<not> urlMatchesFilename ''barfoo.cs'' ''foo.cs''" by blast
  have w: "wcsicmp_eq (drop (length ''/src/Foo.CS'' - length ''foo.cs'') ''/src/Foo.CS'') ''foo.cs''"
    by code_simp
  have "''/src/Foo.CS'' ! (length ''/src/Foo.CS'' - length ''foo.cs'' - 1) = CHR ''/''"
    by code_simp
  with th w have m: "urlMatchesFilename ''/src/Foo.CS'' ''foo.cs''"
    by simp
  from th u n have s: "ResolveSequencePoint_loop
         [demo_document ''barfoo.cs'', demo_document ''/src/Foo.CS''] ''foo.cs'' 12
       = ResolveSequencePoint_loop [demo_document ''/src/Foo.CS''] ''foo.cs'' 12"
    by (simp add: not_FAILED_S_OK)
  have r: "ResolveSequencePoint_loop [demo_document ''/src/Foo.CS''] ''foo.cs'' 12
       = (S_OK, Some (0x06000001, 10))"
    by code_simp
  from n m s r show ?thesis by blast
qed

section \<open>The scan over sequence points\<close>

lemma seqPointScan_None:
  "seqPointScan pts il i best = None \<longleftrightarrow>
     best = None
     \<and> (\<forall>sp \<in> set (takeWhile (\<lambda>sp. (ucast (offset sp) :: ULONG64) \<le> il) pts). line sp = HiddenLine)"
  by (induction pts arbitrary: i best) (auto simp: not_less)

lemma seqPointScan_Some:
  "seqPointScan pts il i best = Some b \<Longrightarrow>
     (best = Some b
      \<and> (\<forall>sp \<in> set (takeWhile (\<lambda>sp. (ucast (offset sp) :: ULONG64) \<le> il) pts). line sp = HiddenLine))
     \<or> (i \<le> b
         \<and> b - i < length (takeWhile (\<lambda>sp. (ucast (offset sp) :: ULONG64) \<le> il) pts)
         \<and> line (pts ! (b - i)) \<noteq> HiddenLine
         \<and> (\<forall>sp \<in> set (drop (Suc (b - i))
                           (takeWhile (\<lambda>sp. (ucast (offset sp) :: ULONG64) \<le> il) pts)).
               line sp = HiddenLine))"
proof (induction pts arbitrary: i best)
  case Nil
  then show ?case by simp
next
  case (Cons sp rest)
  show ?case
  proof (cases "(ucast (offset sp) :: ULONG64) > il")
    case True
    then have "\<not> (ucast (offset sp) :: ULONG64) \<le> il" by simp
    with True Cons.prems show ?thesis by simp
  next
    case False
    let ?best = "if line sp \<noteq> HiddenLine then Some i else best"
    from False Cons.prems have s: "seqPointScan rest il (i + 1) ?best = Some b" by simp
    from Cons.IH [OF s] show ?thesis
    proof
      assume a: "?best = Some b
        \<and> (\<forall>sp \<in> set (takeWhile (\<lambda>sp. (ucast (offset sp) :: ULONG64) \<le> il) rest). line sp = HiddenLine)"
      show ?thesis
      proof (cases "line sp \<noteq> HiddenLine")
        case True
        with a have "b = i" by simp
        with a True False show ?thesis by (simp add: not_less)
      next
        case False
        with a \<open>\<not> il < ucast (offset sp)\<close> show ?thesis by (simp add: not_less)
      qed
    next
      assume a: "i + 1 \<le> b
         \<and> b - (i + 1) < length (takeWhile (\<lambda>sp. (ucast (offset sp) :: ULONG64) \<le> il) rest)
         \<and> line (rest ! (b - (i + 1))) \<noteq> HiddenLine
         \<and> (\<forall>sp \<in> set (drop (Suc (b - (i + 1)))
                           (takeWhile (\<lambda>sp. (ucast (offset sp) :: ULONG64) \<le> il) rest)).
               line sp = HiddenLine)"
      then have e: "b - i = Suc (b - (i + 1))" by arith
      from a False show ?thesis
        by (simp add: not_less e)
    qed
  qed
qed

lemma uint_ucast_offset: "uint (ucast (w :: ULONG32) :: ULONG64) = uint w"
  by (rule uint_up_ucast) (simp add: is_up)

lemma takeWhile_sorted_filter:
  "sorted (map offset pts) \<Longrightarrow>
     takeWhile (\<lambda>sp. (ucast (offset sp) :: ULONG64) \<le> il) pts
       = filter (\<lambda>sp. (ucast (offset sp) :: ULONG64) \<le> il) pts"
proof (induction pts)
  case Nil
  then show ?case by simp
next
  case (Cons sp rest)
  show ?case
  proof (cases "(ucast (offset sp) :: ULONG64) \<le> il")
    case True
    with Cons show ?thesis by simp
  next
    case False
    have "\<forall>x \<in> set rest. \<not> (ucast (offset x) :: ULONG64) \<le> il"
    proof
      fix x assume "x \<in> set rest"
      with Cons.prems have "offset sp \<le> offset x" by auto
      then have "(ucast (offset sp) :: ULONG64) \<le> ucast (offset x)"
        by (simp add: word_le_def uint_ucast_offset)
      with False show "\<not> (ucast (offset x) :: ULONG64) \<le> il" by simp
    qed
    with False show ?thesis by (simp add: filter_empty_conv)
  qed
qed

text \<open>
  Claim C3, as the code has it. In the legacy path, once the method and its sequence
  points have been read, the scan examines the entries in order up to the first one whose
  offset exceeds \<open>ilOffset\<close> (both read as unsigned 64-bit values). When every examined
  entry has the hidden line, the call fails with \<open>E_FAIL\<close>. Otherwise the entry chosen
  is the last examined one whose line is not hidden, and the call returns its line and
  the URL of its document (or the failure of reading that URL). When the offsets are in
  ascending order, the examined entries are exactly those whose offset is at most
  \<open>ilOffset\<close>.
\<close>

theorem GetLineByILOffset_legacy_scan:
  assumes "\<not> FEATURE_PAL p"
    and "m_symbolReaderHandle this = 0" and "m_pSymReader this = Some reader"
    and "GetMethod reader methodToken = (hrMethod, pSymMethod)" and "\<not> FAILED hrMethod"
    and "GetSequencePointCount pSymMethod = (hrCount, seqPointCount)" and "\<not> FAILED hrCount"
    and "seqPointCount \<noteq> 0"
    and "GetSequencePoints pSymMethod seqPointCount = (hrPoints, points)" and "\<not> FAILED hrPoints"
  shows
    "(if \<forall>sp \<in> set (takeWhile (\<lambda>sp. (ucast (offset sp) :: ULONG64) \<le> ilOffset) points).
           line sp = HiddenLine
      then SymbolReader_GetLineByILOffset p pr this methodToken ilOffset = (E_FAIL, None)
      else \<exists>b < length (takeWhile (\<lambda>sp. (ucast (offset sp) :: ULONG64) \<le> ilOffset) points).
             line (points ! b) \<noteq> HiddenLine
             \<and> (\<forall>sp \<in> set (drop (Suc b)
                               (takeWhile (\<lambda>sp. (ucast (offset sp) :: ULONG64) \<le> ilOffset) points)).
                   line sp = HiddenLine)
             \<and> SymbolReader_GetLineByILOffset p pr this methodToken ilOffset
                 = (if FAILED (fst (documentURL (points ! b)))
                    then (fst (documentURL (points ! b)), None)
                    else (S_OK, Some (line (points ! b), snd (documentURL (points ! b))))))
     \<and> (sorted (map offset points) \<longrightarrow>
          takeWhile (\<lambda>sp. (ucast (offset sp) :: ULONG64) \<le> ilOffset) points
            = filter (\<lambda>sp. (ucast (offset sp) :: ULONG64) \<le> ilOffset) points)"
proof -
  let ?examined = "takeWhile (\<lambda>sp. (ucast (offset sp) :: ULONG64) \<le> ilOffset) points"
  have u: "SymbolReader_GetLineByILOffset p pr this methodToken ilOffset =
      (case seqPointScan points ilOffset 0 None of
         None \<Rightarrow> (E_FAIL, None)
       | Some bestSoFar \<Rightarrow>
           (case documentURL (points ! bestSoFar) of
              (hr, url) \<Rightarrow>
                if FAILED hr then (hr, None)
                else (S_OK, Some (line (points ! bestSoFar), url))))"
    using assms by (simp add: SymbolReader_GetLineByILOffset_def)
  have first: "if \<forall>sp \<in> set ?examined. line sp = HiddenLine
      then SymbolReader_GetLineByILOffset p pr this methodToken ilOffset = (E_FAIL, None)
      else \<exists>b < length ?examined.
             line (points ! b) \<noteq> HiddenLine
             \<and> (\<forall>sp \<in> set (drop (Suc b) ?examined). line sp = HiddenLine)
             \<and> SymbolReader_GetLineByILOffset p pr this methodToken ilOffset
                 = (if FAILED (fst (documentURL (points ! b)))
                    then (fst (documentURL (points ! b)), None)
                    else (S_OK, Some (line (points ! b), snd (documentURL (points ! b)))))"
  proof (cases "seqPointScan points ilOffset 0 None")
    case None
    then have "\<forall>sp \<in> set ?examined. line sp = HiddenLine"
      by (simp add: seqPointScan_None)
    with None u show ?thesis by simp
  next
    case (Some b)
    from seqPointScan_Some [OF Some]
    have b: "b < length ?examined" "line (points ! b) \<noteq> HiddenLine"
      "\<forall>sp \<in> set (drop (Suc b) ?examined). line sp = HiddenLine"
      by simp_all
    from b(1) have "?examined ! b \<in> set ?examined" by simp
    moreover from b(1) have "?examined ! b = points ! b" by (rule takeWhile_nth)
    ultimately have "\<not> (\<forall>sp \<in> set ?examined. line sp = HiddenLine)"
      using b(2) by auto
    moreover have "SymbolReader_GetLineByILOffset p pr this methodToken ilOffset
                 = (if FAILED (fst (documentURL (points ! b)))
                    then (fst (documentURL (points ! b)), None)
                    else (S_OK, Some (line (points ! b), snd (documentURL (points ! b)))))"
      using u Some by (cases "documentURL (points ! b)") simp
    ultimately show ?thesis using b by auto
  qed
  from first takeWhile_sorted_filter show ?thesis by blast
qed

lemma demo_examined_7:
  "takeWhile (\<lambda>sp. (ucast (offset sp) :: ULONG64) \<le> 7) demo_points = take 2 demo_points"
  by code_simp

theorem GetLineByILOffset_legacy_scan_witness:
  "SymbolReader_GetLineByILOffset Windows demo_portable demo_SymbolReader 0x06000001 7
     = (S_OK, Some (1, ''/src/foo.cs''))
   \<and> takeWhile (\<lambda>sp. (ucast (offset sp) :: ULONG64) \<le> 7) demo_points
       = filter (\<lambda>sp. (ucast (offset sp) :: ULONG64) \<le> 7) demo_points"
proof -
  note th = GetLineByILOffset_legacy_scan
     [where p = Windows and this = demo_SymbolReader and pr = demo_portable
        and reader = "the (m_pSymReader demo_SymbolReader)" and methodToken = "0x06000001"
        and hrMethod = S_OK and pSymMethod = demo_method
        and hrCount = S_OK and seqPointCount = 3
        and hrPoints = S_OK and points = demo_points and ilOffset = 7]
  have pre: "\<not> FEATURE_PAL Windows" "m_symbolReaderHandle demo_SymbolReader = 0"
    "m_pSymReader demo_SymbolReader = Some (the (m_pSymReader demo_SymbolReader))"
    "GetMethod (the (m_pSymReader demo_SymbolReader)) 0x06000001 = (S_OK, demo_method)"
    "GetSequencePointCount demo_method = (S_OK, 3)" "(3 :: ULONG32) \<noteq> 0"
    "GetSequencePoints demo_method 3 = (S_OK, demo_points)"
    by (simp_all add: FEATURE_PAL_def demo_SymbolReader_def demo_method_def)
  have srt: "sorted (map offset demo_points)"
    by (simp add: demo_points_def)
  have pts: "demo_points ! 0 = \<lparr>offset = 0, line = 1, documentURL = (S_OK, ''/src/foo.cs'')\<rparr>"
    "demo_points ! 1 = \<lparr>offset = 5, line = HiddenLine, documentURL = (S_OK, ''/src/foo.cs'')\<rparr>"
    "length (take 2 demo_points) = 2"
    by (simp_all add: demo_points_def)
  have hid: "(1 :: ULONG32) \<noteq> HiddenLine" by (simp add: HiddenLine_def)
  let ?examined = "takeWhile (\<lambda>sp. (ucast (offset sp) :: ULONG64) \<le> 7) demo_points"
  note th' = th [OF pre(1-4) not_FAILED_S_OK pre(5) not_FAILED_S_OK pre(6) pre(7) not_FAILED_S_OK]
  have f: "?examined = filter (\<lambda>sp. (ucast (offset sp) :: ULONG64) \<le> 7) demo_points"
    by (rule th' [THEN conjunct2, THEN mp, OF srt])
  have "\<not> (\<forall>sp \<in> set ?examined. line sp = HiddenLine)"
    by code_simp
  then have nh: "(\<forall>sp \<in> set ?examined. line sp = HiddenLine) = False"
    by simp
  from th' [THEN conjunct1] have "\<exists>b < length ?examined.
             line (demo_points ! b) \<noteq> HiddenLine
             \<and> (\<forall>sp \<in> set (drop (Suc b) ?examined). line sp = HiddenLine)
             \<and> SymbolReader_GetLineByILOffset Windows demo_portable demo_SymbolReader 0x06000001 7
                 = (if FAILED (fst (documentURL (demo_points ! b)))
                    then (fst (documentURL (demo_points ! b)), None)
                    else (S_OK, Some (line (demo_points ! b), snd (documentURL (demo_points ! b)))))"
    by (simp only: nh if_False)
  then obtain b where b: "b < length ?examined" "line (demo_points ! b) \<noteq> HiddenLine"
    "SymbolReader_GetLineByILOffset Windows demo_portable demo_SymbolReader 0x06000001 7
                 = (if FAILED (fst (documentURL (demo_points ! b)))
                    then (fst (documentURL (demo_points ! b)), None)
                    else (S_OK, Some (line (demo_points ! b), snd (documentURL (demo_points ! b)))))"
    by blast
  from b(1) have "b < 2" by (simp add: demo_examined_7 pts(3))
  then have "b = 0 \<or> b = 1" by arith
  with b(2) pts have "b = 0" by auto
  with b(3) pts have "SymbolReader_GetLineByILOffset Windows demo_portable demo_SymbolReader 0x06000001 7
     = (S_OK, Some (1, ''/src/foo.cs''))"
    by (simp add: not_FAILED_S_OK)
  with f show ?thesis by blast
qed

text \<open>
  \<open>ilOffset\<close> is a \<open>ULONG64\<close>: \<open>-1\<close> is its largest value, every offset is below it,
  and the query on offsets \<open>[0, 5, 10]\<close> with lines \<open>[1, hidden, 3]\<close> returns line 3.
\<close>

theorem GetLineByILOffset_minus_one_counterexample:
  "map offset demo_points = [0, 5, 10]
   \<and> map line demo_points = [1, HiddenLine, 3]
   \<and> SymbolReader_GetLineByILOffset Windows demo_portable demo_SymbolReader 0x06000001 (- 1)
       = (S_OK, Some (3, ''/src/foo.cs''))
   \<and> (- 1 :: ULONG64) = 18446744073709551615"
proof -
  have "SymbolReader_GetLineByILOffset Windows demo_portable demo_SymbolReader 0x06000001 (- 1)
       = (S_OK, Some (3, ''/src/foo.cs''))"
    by code_simp
  then show ?thesis
    by (simp add: demo_points_def)
qed

section \<open>Selecting the hosting runtime\<close>













section \<open>The trusted-assembly list\<close>

















end
